theory Spec2Isabelle
  imports Main
begin

section \<open>Data model of the deployment command\<close>

text \<open>
  The commands of \<open>TruffleCommands\<close> orchestrate external tools. Every call that leaves
  the module (the editor host, the truffle CLI, the Ganache service, the telemetry client,
  the key-derivation libraries) is recorded as an \<open>event\<close>; a command evaluates to its
  outcome (\<open>Inl\<close> the thrown error, \<open>Inr\<close> the returned value) together with the
  events it caused, in order. What the external calls answer is read from a \<open>world\<close>.
\<close>

text \<open>\<open>networkId: string | number\<close>.\<close>

datatype NetworkId = NumberId int | StringId string

text \<open>
  \<open>NetworkNode\<close> and its subclasses. \<open>LocalNetworkNode\<close> carries the \<open>port\<close> that
  \<open>getServiceCreateFunction\<close> reads after its \<open>instanceof\<close> test.
\<close>

datatype NetworkNode =
    LocalNetworkNode string NetworkId nat
  | AzureBlockchainNetworkNode string NetworkId

fun NetworkNode_label :: "NetworkNode \<Rightarrow> string" where
  "NetworkNode_label (LocalNetworkNode l n p) = l"
| "NetworkNode_label (AzureBlockchainNetworkNode l n) = l"

fun NetworkNode_networkId :: "NetworkNode \<Rightarrow> NetworkId" where
  "NetworkNode_networkId (LocalNetworkNode l n p) = n"
| "NetworkNode_networkId (AzureBlockchainNetworkNode l n) = n"

text \<open>Children of a project: network nodes and other tree items (members).\<close>

datatype ExtensionItem = NetworkNodeItem NetworkNode | Member string

datatype Project = Project (Project_label: string) (Project_children: "ExtensionItem list")

datatype Service = Service (Service_label: string) (Service_children: "Project list")

text \<open>\<open>child instanceof NetworkNode\<close>, and the cast \<open>as NetworkNode[]\<close> of the filtered list.\<close>

fun instanceofNetworkNode :: "ExtensionItem \<Rightarrow> bool" where
  "instanceofNetworkNode (NetworkNodeItem n) = True"
| "instanceofNetworkNode (Member m) = False"

fun asNetworkNodes :: "ExtensionItem list \<Rightarrow> NetworkNode list" where
  "asNetworkNodes [] = []"
| "asNetworkNodes (NetworkNodeItem n # cs) = n # asNetworkNodes cs"
| "asNetworkNodes (Member m # cs) = asNetworkNodes cs"

text \<open>\<open>TruffleConfiguration.INetwork\<close>, with the option fields the command reads.\<close>

record IProvider =
  provider_url :: "string option"

record INetworkOption =
  provider :: "IProvider option"
  host :: "string option"
  port :: "nat option"
  network_id :: NetworkId

record INetwork =
  network_name :: string
  options :: INetworkOption

text \<open>
  The deployment strategies. The source stores a closure
  \<open>f.bind(undefined, args)\<close> in \<open>IDeployDestination.cmd\<close>; the model stores which function
  was bound, with its bound arguments, and \<open>run_cmd\<close> below calls it.
\<close>

datatype cmd =
    CreateNewDeploymentService string
  | DeployToLocalGanache string string string
  | DeployToMainNetwork string string
  | DeployToNetwork string string
  | CreateLocalGanacheNetwork NetworkNode string
  | CreateNetwork NetworkNode string

record IDeployDestination =
  cmd :: cmd
  cwd :: "string option"
  description :: "string option"
  detail :: "string option"
  label :: string
  networkId :: NetworkId

record IExtendedQuickPickItem =
  item_detail :: string
  extended :: string
  item_label :: string

record OZContractValidated =
  contractPath :: string
  isExistedOnDisk :: bool
  isHashValid :: bool

text \<open>The texts of \<open>Constants\<close>, by name.\<close>

datatype message =
    rpcEndpointCopiedToClipboard
  | privateKeyWasCopiedToClipboard
  | ThereAreNoMnemonics
  | MnemonicFileHaveNoText
  | InvalidMnemonic
  | validHashMessage string
  | invalidHashMessage string
  | contractNotExistedOnDisk string
  | openZeppelinFilesAreInvalid "string list"
  | deployingContracts string

datatype error = Error message | CancellationEvent | Thrown string

datatype event =
    SendEvent string "(string \<times> string) list"
  | SendException error
  | ShowQuickPick "IDeployDestination list"
  | ShowMnemonicQuickPick "IExtendedQuickPickItem list"
  | CheckAppsSilent
  | InstallTruffle
  | IsHdWalletProviderRequired
  | CheckHdWalletProviderVersion
  | InstallTruffleHdWalletProvider
  | ValidateContracts
  | OutputLine message
  | ShowErrorMessage message
  | ShowInformationMessage message
  | WriteToClipboard string
  | ConnectProject
  | StartGanacheServer "nat option"
  | ShowConfirmPaidOperationDialog
  | GetTruffleNetwork NetworkNode
  | SetNetworks string INetwork
  | WithProgress message
  | EnsureDir string
  | ExecuteCommand string string "string list"
  | UpdateContracts

text \<open>
  What the environment answers. \<open>fails\<close> tells, for a call that returns nothing, whether
  it throws; the other fields are the results of the calls that return a value.
  \<open>defaultLocalhostPort\<close> is \<open>Constants.defaultLocalhostPort\<close>, \<open>createProject\<close> is
  \<open>Constants.uiCommandStrings.createProject\<close> and \<open>truffle\<close> is \<open>RequiredApps.truffle\<close>.
  A quick pick answers with the position of the chosen item in the list it was given.
\<close>

record world =
  defaultLocalhostPort :: nat
  createProject :: string
  truffle :: string
  dirname :: "string \<Rightarrow> string"
  obfuscate :: "string \<Rightarrow> string"
  fails :: "event \<Rightarrow> error option"
  getTruffleConfigUri :: "error + string"
  getNetworks :: "string \<Rightarrow> error + INetwork list"
  getItems :: "Service list"
  getRPCAddress :: "NetworkNode \<Rightarrow> error + string"
  getTruffleNetwork :: "NetworkNode \<Rightarrow> error + INetwork"
  getPortFromUrl :: "string \<Rightarrow> nat option"
  pickedDestination :: "IDeployDestination list \<Rightarrow> error + nat"
  checkAppsSilent :: "error + bool"
  isHdWalletProviderRequired :: "error + bool"
  checkHdWalletProviderVersion :: "error + bool"
  validateContracts :: "error + OZContractValidated list"
  connectProject :: "error + Project"
  getExistedMnemonicPaths :: "error + string list"
  getMnemonic :: "string \<Rightarrow> error + string"
  MaskMnemonic :: "string \<Rightarrow> string"
  pickedMnemonic :: "IExtendedQuickPickItem list \<Rightarrow> error + nat"

text \<open>
  The key-derivation libraries \<open>bip39\<close> and \<open>hdkey\<close>: seeds and keys are theirs, so
  their types are left open. \<open>privateKey_toString\<close> is
  \<open>childKey.privateKey.toString('hex')\<close>.
\<close>

record ('seed, 'key) libraries =
  mnemonicToSeed :: "string \<Rightarrow> error + 'seed"
  fromMasterSeed :: "'seed \<Rightarrow> error + 'key"
  derive :: "'key \<Rightarrow> string \<Rightarrow> error + 'key"
  privateKey_toString :: "'key \<Rightarrow> error + string"

section \<open>Commands as outcome and events\<close>

type_synonym 'a io = "(error + 'a) \<times> event list"

definition ret :: "'a \<Rightarrow> 'a io" where
  "ret x = (Inr x, [])"

definition throw :: "error \<Rightarrow> 'a io" where
  "throw e = (Inl e, [])"

definition bind :: "'a io \<Rightarrow> ('a \<Rightarrow> 'b io) \<Rightarrow> 'b io" where
  "bind m f =
     (case m of
        (Inl e, t) \<Rightarrow> (Inl e, t)
      | (Inr x, t) \<Rightarrow> (case f x of (r, t') \<Rightarrow> (r, t @ t')))"

definition seq :: "unit io \<Rightarrow> 'b io \<Rightarrow> 'b io" where
  "seq m k = bind m (\<lambda>_. k)"

text \<open>\<open>try { m } catch (error) { h error }\<close>.\<close>

definition try_catch :: "'a io \<Rightarrow> (error \<Rightarrow> 'a io) \<Rightarrow> 'a io" where
  "try_catch m h =
     (case m of
        (Inl e, t) \<Rightarrow> (case h e of (r, t') \<Rightarrow> (r, t @ t'))
      | (Inr x, t) \<Rightarrow> (Inr x, t))"

text \<open>An effect that cannot throw (telemetry, messages, output lines).\<close>

definition emit :: "event \<Rightarrow> unit io" where
  "emit ev = (Inr (), [ev])"

text \<open>An external call that returns nothing and may throw.\<close>

definition call :: "world \<Rightarrow> event \<Rightarrow> unit io" where
  "call w ev = (case fails w ev of None \<Rightarrow> (Inr (), [ev]) | Some e \<Rightarrow> (Inl e, [ev]))"

text \<open>An external call that returns a value, or throws.\<close>

definition ask :: "event \<Rightarrow> error + 'a \<Rightarrow> 'a io" where
  "ask ev r = (r, [ev])"

definition lift :: "error + 'a \<Rightarrow> 'a io" where
  "lift r = (r, [])"

section \<open>The local-Ganache pattern\<close>

text \<open>
  \<open>String(n)\<close> of a port number, as the template literal of \<open>localGanacheRegexp\<close>
  interpolates it.
\<close>

definition digit_char :: "nat \<Rightarrow> char" where
  "digit_char d = ''0123456789'' ! d"

function toString_nat :: "nat \<Rightarrow> string" where
  "toString_nat n =
     (if n < 10 then [digit_char n] else toString_nat (n div 10) @ [digit_char (n mod 10)])"
  by pat_completeness auto
termination
  by (relation "measure (\<lambda>n. n)") auto

declare toString_nat.simps [simp del]

text \<open>
  The pattern source is the cooked template string: \<open>\.\<close> and \<open>\:\<close> inside a template
  literal are the characters \<open>.\<close> and \<open>:\<close>, so the source handed to \<open>RegExp\<close> is
  \<open>127.0.0.1:\<close> followed by the port, where each \<open>.\<close> is the pattern for one character
  other than a line terminator, and every other character stands for itself.
\<close>

datatype atom = AnyChar | Lit char

fun atom_of :: "char \<Rightarrow> atom" where
  "atom_of c = (if c = CHR ''.'' then AnyChar else Lit c)"

definition localGanacheRegexp :: "world \<Rightarrow> atom list" where
  "localGanacheRegexp w = map atom_of (''127.0.0.1:'' @ toString_nat (defaultLocalhostPort w))"

fun atom_matches :: "atom \<Rightarrow> char \<Rightarrow> bool" where
  "atom_matches AnyChar c = (c \<noteq> CHR 0x0A \<and> c \<noteq> CHR 0x0D)"
| "atom_matches (Lit a) c = (a = c)"

fun match_here :: "atom list \<Rightarrow> string \<Rightarrow> bool" where
  "match_here [] s = True"
| "match_here (a # as) [] = False"
| "match_here (a # as) (c # cs) = (atom_matches a c \<and> match_here as cs)"

text \<open>\<open>url.match(re)\<close> is truthy when the pattern matches at some position of \<open>url\<close>.\<close>

fun String_match :: "string \<Rightarrow> atom list \<Rightarrow> bool" where
  "String_match [] re = match_here re []"
| "String_match (c # cs) re = (match_here re (c # cs) \<or> String_match cs re)"

section \<open>Choosing the strategy\<close>

fun getTruffleDeployFunction :: "world \<Rightarrow> string \<Rightarrow> string \<Rightarrow> string \<Rightarrow> NetworkId \<Rightarrow> cmd io" where
  "getTruffleDeployFunction w url name truffleConfigPath networkId' =
     (if String_match url (localGanacheRegexp w) then
        seq (emit (SendEvent ''TruffleCommands.getTruffleDeployFunction.returnDeployToLocalGanache'' []))
            (ret (DeployToLocalGanache name truffleConfigPath url))
      else if networkId' = NumberId 1 \<or> networkId' = StringId ''1'' then
        seq (emit (SendEvent ''TruffleCommands.getTruffleDeployFunction.returnDeployToMainNetwork'' []))
            (ret (DeployToMainNetwork name truffleConfigPath))
      else
        seq (emit (SendEvent ''TruffleCommands.getTruffleDeployFunction.returnDeployToNetwork'' []))
            (ret (DeployToNetwork name truffleConfigPath)))"

fun getServiceCreateFunction :: "world \<Rightarrow> NetworkNode \<Rightarrow> string \<Rightarrow> cmd io" where
  "getServiceCreateFunction w (LocalNetworkNode l n p) truffleConfigPath =
     (if p = defaultLocalhostPort w then
        seq (emit (SendEvent ''TruffleCommands.getServiceCreateFunction.returnCreateLocalGanacheNetwork'' []))
            (ret (CreateLocalGanacheNetwork (LocalNetworkNode l n p) truffleConfigPath))
      else
        seq (emit (SendEvent ''TruffleCommands.getServiceCreateFunction.returnCreateService'' []))
            (ret (CreateNetwork (LocalNetworkNode l n p) truffleConfigPath)))"
| "getServiceCreateFunction w (AzureBlockchainNetworkNode l n) truffleConfigPath =
     seq (emit (SendEvent ''TruffleCommands.getServiceCreateFunction.returnCreateService'' []))
         (ret (CreateNetwork (AzureBlockchainNetworkNode l n) truffleConfigPath))"


section \<open>Helpers of the command\<close>

text \<open>\<open>array.push(...items)\<close>.\<close>

definition push :: "'a list \<Rightarrow> 'a list \<Rightarrow> 'a list" where
  "push array items = array @ items"

text \<open>
  \<open>list.forEach(f)\<close> where \<open>f\<close> pushes one element to the array \<open>acc\<close>; a throw of \<open>f\<close>
  ends the loop.
\<close>

fun forEach_push :: "('a \<Rightarrow> 'b io) \<Rightarrow> 'a list \<Rightarrow> 'b list \<Rightarrow> 'b list io" where
  "forEach_push f [] acc = ret acc"
| "forEach_push f (x # xs) acc = bind (f x) (\<lambda>y. forEach_push f xs (push acc [y]))"

fun forEach :: "('a \<Rightarrow> unit io) \<Rightarrow> 'a list \<Rightarrow> unit io" where
  "forEach f [] = ret ()"
| "forEach f (x # xs) = seq (f x) (forEach f xs)"

text \<open>
  \<open>Promise.all(list.map(async ...))\<close>: every callback is started, in order, whatever the
  others do; the result is the list of their values, or a rejection when one of them
  rejects (the model reports the first in list order).
\<close>

fun Promise_all :: "'a io list \<Rightarrow> 'a list io" where
  "Promise_all [] = ret []"
| "Promise_all (m # ms) =
     (case m of (r, t) \<Rightarrow>
        (case Promise_all ms of (rs, ts) \<Rightarrow>
           ((case r of
               Inl e \<Rightarrow> Inl e
             | Inr x \<Rightarrow> (case rs of Inl e' \<Rightarrow> Inl e' | Inr xs \<Rightarrow> Inr (x # xs))),
            t @ ts)))"

text \<open>
  The quick-pick helper: the list is shown; the chosen item is returned, and a dismissed
  pick throws.
\<close>

definition showQuickPick :: "world \<Rightarrow> IDeployDestination list \<Rightarrow> IDeployDestination io" where
  "showQuickPick w items =
     ask (ShowQuickPick items)
       (case pickedDestination w items of
          Inl e \<Rightarrow> Inl e
        | Inr i \<Rightarrow> if i < length items then Inr (items ! i) else Inl CancellationEvent)"

definition showMnemonicQuickPick :: "world \<Rightarrow> IExtendedQuickPickItem list \<Rightarrow> IExtendedQuickPickItem io" where
  "showMnemonicQuickPick w items =
     ask (ShowMnemonicQuickPick items)
       (case pickedMnemonic w items of
          Inl e \<Rightarrow> Inl e
        | Inr i \<Rightarrow> if i < length items then Inr (items ! i) else Inl CancellationEvent)"

text \<open>\<open>command.description || ''\<close>.\<close>

definition description_or_empty :: "IDeployDestination \<Rightarrow> string" where
  "description_or_empty command = (case description command of None \<Rightarrow> [] | Some d \<Rightarrow> d)"

section \<open>The deployment strategies\<close>

definition deployToNetwork :: "world \<Rightarrow> string \<Rightarrow> string \<Rightarrow> unit io" where
  "deployToNetwork w networkName truffleConfigPath =
     seq (emit (WithProgress (deployingContracts networkName)))
       (let workspaceRoot = dirname w truffleConfigPath in
        seq (call w (EnsureDir workspaceRoot))
          (seq (call w (ExecuteCommand workspaceRoot ''npx''
                  [truffle w, ''migrate'', ''--reset'', ''--network'', networkName]))
             (call w UpdateContracts)))"

definition deployToLocalGanache :: "world \<Rightarrow> string \<Rightarrow> string \<Rightarrow> string \<Rightarrow> unit io" where
  "deployToLocalGanache w networkName truffleConfigPath url =
     (let port = getPortFromUrl w url in
      seq (call w (StartGanacheServer port))
        (deployToNetwork w networkName truffleConfigPath))"

definition deployToMainNetwork :: "world \<Rightarrow> string \<Rightarrow> string \<Rightarrow> unit io" where
  "deployToMainNetwork w networkName truffleConfigPath =
     seq (call w ShowConfirmPaidOperationDialog)
       (deployToNetwork w networkName truffleConfigPath)"

definition createNetwork :: "world \<Rightarrow> NetworkNode \<Rightarrow> string \<Rightarrow> unit io" where
  "createNetwork w networkNode truffleConfigPath =
     bind (ask (GetTruffleNetwork networkNode) (getTruffleNetwork w networkNode)) (\<lambda>network.
       seq (call w (SetNetworks truffleConfigPath network))
         (deployToNetwork w (network_name network) truffleConfigPath))"

text \<open>\<open>localNetworkNode.port\<close>; a node of another class has no such property.\<close>

fun LocalNetworkNode_port :: "NetworkNode \<Rightarrow> nat option" where
  "LocalNetworkNode_port (LocalNetworkNode l n p) = Some p"
| "LocalNetworkNode_port (AzureBlockchainNetworkNode l n) = None"

definition createLocalGanacheNetwork :: "world \<Rightarrow> NetworkNode \<Rightarrow> string \<Rightarrow> unit io" where
  "createLocalGanacheNetwork w localNetworkNode truffleConfigPath =
     seq (call w (StartGanacheServer (LocalNetworkNode_port localNetworkNode)))
       (createNetwork w localNetworkNode truffleConfigPath)"

text \<open>
  \<open>createNewDeploymentService\<close> fills its list from callbacks that it does not wait
  for; the model takes the list as it is once every callback has settled, a callback whose
  \<open>getRPCAddress\<close> rejects pushing nothing. Every entry of that list is bound to
  \<open>createNetwork\<close>, which is what \<open>command.cmd()\<close> calls.
\<close>

fun settled :: "world \<Rightarrow> string \<Rightarrow> NetworkNode list \<Rightarrow> IDeployDestination list" where
  "settled w truffleConfigPath [] = []"
| "settled w truffleConfigPath (network # networks) =
     (case getRPCAddress w network of
        Inl e \<Rightarrow> settled w truffleConfigPath networks
      | Inr address \<Rightarrow>
          \<lparr>cmd = CreateNetwork network truffleConfigPath,
           cwd = None,
           description = Some address,
           detail = Some ''Tree Item'',
           label = NetworkNode_label network,
           networkId = NetworkNode_networkId network\<rparr> # settled w truffleConfigPath networks)"

definition createNewDeploymentService :: "world \<Rightarrow> string \<Rightarrow> unit io" where
  "createNewDeploymentService w truffleConfigPath =
     seq (emit (SendEvent ''TruffleCommands.createNewDeploymentService.commandStarted'' []))
       (bind (ask ConnectProject (connectProject w)) (\<lambda>project.
          let networks = asNetworkNodes (filter instanceofNetworkNode (Project_children project));
              deployDestination = settled w truffleConfigPath networks
          in bind (showQuickPick w deployDestination) (\<lambda>command.
               seq (emit (SendEvent
                      ''TruffleCommands.deployContracts.createNewDeploymentService.selectedDestination''
                      [(''url'', obfuscate w (description_or_empty command))]))
                 (case cmd command of
                    CreateNetwork network path \<Rightarrow> createNetwork w network path
                  | _ \<Rightarrow> ret ()))))"

text \<open>\<open>command.cmd()\<close>: calling the bound function.\<close>

fun run_cmd :: "world \<Rightarrow> cmd \<Rightarrow> unit io" where
  "run_cmd w (CreateNewDeploymentService truffleConfigPath) =
     createNewDeploymentService w truffleConfigPath"
| "run_cmd w (DeployToLocalGanache name truffleConfigPath url) =
     deployToLocalGanache w name truffleConfigPath url"
| "run_cmd w (DeployToMainNetwork name truffleConfigPath) =
     deployToMainNetwork w name truffleConfigPath"
| "run_cmd w (DeployToNetwork name truffleConfigPath) =
     deployToNetwork w name truffleConfigPath"
| "run_cmd w (CreateLocalGanacheNetwork networkNode truffleConfigPath) =
     createLocalGanacheNetwork w networkNode truffleConfigPath"
| "run_cmd w (CreateNetwork networkNode truffleConfigPath) =
     createNetwork w networkNode truffleConfigPath"

section \<open>Collecting the destinations\<close>

definition getDefaultDeployDestinations :: "world \<Rightarrow> string \<Rightarrow> IDeployDestination list" where
  "getDefaultDeployDestinations w truffleConfigPath =
     [\<lparr>cmd = CreateNewDeploymentService truffleConfigPath,
       cwd = None,
       description = None,
       detail = None,
       label = createProject w,
       networkId = StringId ''*''\<rparr>]"

text \<open>
  The URL of a configured network: the provider's URL (the text \<open>undefined\<close> when the
  provider has none), or, when that is empty, host and port.
\<close>

definition network_url :: "INetworkOption \<Rightarrow> string" where
  "network_url opts =
     (let from_provider =
            (case provider opts of
               None \<Rightarrow> []
             | Some p \<Rightarrow> (case provider_url p of None \<Rightarrow> ''undefined'' | Some u \<Rightarrow> u));
          from_host =
            (case host opts of None \<Rightarrow> [] | Some h \<Rightarrow> h) @
            (case port opts of
               None \<Rightarrow> []
             | Some p \<Rightarrow> if p = 0 then [] else '':'' @ toString_nat p)
      in if from_provider \<noteq> [] then from_provider else from_host)"

definition getTruffleDeployDestinations :: "world \<Rightarrow> string \<Rightarrow> IDeployDestination list io" where
  "getTruffleDeployDestinations w truffleConfigPath =
     bind (lift (getNetworks w truffleConfigPath)) (\<lambda>networksFromConfig.
       forEach_push (\<lambda>network.
           let opts = options network;
               url = network_url opts
           in bind (getTruffleDeployFunction w url (network_name network) truffleConfigPath
                      (network_id opts)) (\<lambda>f.
                ret \<lparr>cmd = f,
                     cwd = Some (dirname w truffleConfigPath),
                     description = Some url,
                     detail = Some ''From truffle-config.js'',
                     label = network_name network,
                     networkId = network_id opts\<rparr>))
         networksFromConfig [])"

definition getTreeDeployDestinations :: "world \<Rightarrow> string \<Rightarrow> IDeployDestination list io" where
  "getTreeDeployDestinations w truffleConfigPath =
     (let services = getItems w;
          projects = foldl (\<lambda>res service. push res (Service_children service)) [] services;
          networks = foldl (\<lambda>res project.
                       push res (asNetworkNodes (filter instanceofNetworkNode (Project_children project))))
                     [] projects
      in Promise_all (map (\<lambda>network.
           bind (getServiceCreateFunction w network truffleConfigPath) (\<lambda>f.
             bind (lift (getRPCAddress w network)) (\<lambda>address.
               ret \<lparr>cmd = f,
                    cwd = None,
                    description = Some address,
                    detail = Some ''Tree Item'',
                    label = NetworkNode_label network,
                    networkId = NetworkNode_networkId network\<rparr>)))
         networks))"

section \<open>The commands\<close>

definition validateOpenZeppelinContracts :: "world \<Rightarrow> unit io" where
  "validateOpenZeppelinContracts w =
     bind (ask ValidateContracts (validateContracts w)) (\<lambda>validatedContracts.
       seq (forEach (\<lambda>ozContract.
              if isExistedOnDisk ozContract then
                emit (OutputLine (if isHashValid ozContract
                                  then validHashMessage (contractPath ozContract)
                                  else invalidHashMessage (contractPath ozContract)))
              else
                emit (OutputLine (contractNotExistedOnDisk (contractPath ozContract))))
            validatedContracts)
         (let invalidContractsPaths =
                map contractPath
                  (filter (\<lambda>ozContract. \<not> isExistedOnDisk ozContract \<or> \<not> isHashValid ozContract)
                     validatedContracts)
          in if length invalidContractsPaths \<noteq> 0 then
               (let errorMsg = openZeppelinFilesAreInvalid invalidContractsPaths;
                    error = Error errorMsg
                in seq (emit (ShowErrorMessage errorMsg))
                     (seq (emit (SendException error)) (throw error)))
             else ret ()))"

text \<open>The list handed to the quick pick of \<open>deployContracts\<close>.\<close>

definition uniqueDestinations ::
  "IDeployDestination list \<Rightarrow> IDeployDestination list \<Rightarrow> IDeployDestination list \<Rightarrow>
   IDeployDestination list" where
  "uniqueDestinations defaultDeployDestinations truffleDeployDestinations treeDeployDestinations =
     (let deployDestinations = [];
          deployDestinations = push deployDestinations defaultDeployDestinations;
          deployDestinations = push deployDestinations truffleDeployDestinations;
          deployDestinations = push deployDestinations treeDeployDestinations
      in filter (\<lambda>_. True) deployDestinations)"

definition deployContracts :: "world \<Rightarrow> unit io" where
  "deployContracts w =
     seq (emit (SendEvent ''TruffleCommands.deployContracts.commandStarted'' []))
    (bind (lift (getTruffleConfigUri w)) (\<lambda>truffleConfigsUri.
     let defaultDeployDestinations = getDefaultDeployDestinations w truffleConfigsUri in
     bind (getTruffleDeployDestinations w truffleConfigsUri) (\<lambda>truffleDeployDestinations.
     bind (getTreeDeployDestinations w truffleConfigsUri) (\<lambda>treeDeployDestinations.
     bind (showQuickPick w
             (uniqueDestinations defaultDeployDestinations truffleDeployDestinations
                treeDeployDestinations)) (\<lambda>command.
     seq (emit (SendEvent ''TruffleCommands.deployContracts.selectedDestination''
                  [(''url'', obfuscate w (description_or_empty command))]))
    (seq (bind (ask CheckAppsSilent (checkAppsSilent w)) (\<lambda>installed.
            if \<not> installed then
              seq (emit (SendEvent ''TruffleCommands.deployContracts.installTruffle'' []))
                (call w InstallTruffle)
            else ret ()))
    (seq (bind (ask IsHdWalletProviderRequired (isHdWalletProviderRequired w)) (\<lambda>required.
            if required then
              bind (ask CheckHdWalletProviderVersion (checkHdWalletProviderVersion w)) (\<lambda>version_ok.
                if \<not> version_ok then
                  seq (emit (SendEvent
                         ''TruffleCommands.deployContracts.installTruffleHdWalletProvider'' []))
                    (call w InstallTruffleHdWalletProvider)
                else ret ())
            else ret ()))
    (seq (validateOpenZeppelinContracts w)
    (seq (run_cmd w (cmd command))
         (emit (SendEvent ''TruffleCommands.deployContracts.commandFinished'' [])))))))))))"

text \<open>\<open>Project.getRPCAddress\<close>.\<close>

definition Project_getRPCAddress :: "world \<Rightarrow> Project \<Rightarrow> string io" where
  "Project_getRPCAddress w this =
     (let networkNodes = asNetworkNodes (filter instanceofNetworkNode (Project_children this))
      in if length networkNodes = 0 then ret []
         else lift (getRPCAddress w (networkNodes ! 0)))"

definition writeRPCEndpointAddressToBuffer :: "world \<Rightarrow> Project \<Rightarrow> unit io" where
  "writeRPCEndpointAddressToBuffer w extensionItem =
     seq (emit (SendEvent ''TruffleCommands.writeRPCEndpointAddressToBuffer.commandStarted'' []))
       (bind (Project_getRPCAddress w extensionItem) (\<lambda>rpcEndpointAddress.
          seq (emit (SendEvent ''TruffleCommands.writeRPCEndpointAddressToBuffer.getRPCAddress''
                       [(''data'', obfuscate w rpcEndpointAddress)]))
            (if rpcEndpointAddress \<noteq> [] then
               seq (call w (WriteToClipboard rpcEndpointAddress))
                 (emit (ShowInformationMessage rpcEndpointCopiedToClipboard))
             else ret ())))"

text \<open>The quick-pick items of \<open>getPrivateKeyFromMnemonic\<close>, one per saved mnemonic path.\<close>

definition mnemonicItems :: "world \<Rightarrow> IExtendedQuickPickItem list io" where
  "mnemonicItems w =
     bind (lift (getExistedMnemonicPaths w)) (\<lambda>paths.
       forEach_push (\<lambda>mnemonicPath.
           bind (lift (getMnemonic w mnemonicPath)) (\<lambda>savedMnemonic.
             ret \<lparr>item_detail = mnemonicPath,
                  extended = savedMnemonic,
                  item_label = MaskMnemonic w savedMnemonic\<rparr>))
         paths [])"

definition getPrivateKeyFromMnemonic :: "('seed, 'key) libraries \<Rightarrow> world \<Rightarrow> unit io" where
  "getPrivateKeyFromMnemonic lib w =
     seq (emit (SendEvent ''TruffleCommands.getPrivateKeyFromMnemonic.commandStarted'' []))
       (bind (mnemonicItems w) (\<lambda>mnemonicItems.
        if length mnemonicItems = 0 then
          seq (emit (SendEvent ''TruffleCommands.getPrivateKeyFromMnemonic.thereAreNoMnemonics'' []))
            (emit (ShowErrorMessage ThereAreNoMnemonics))
        else
          bind (showMnemonicQuickPick w mnemonicItems) (\<lambda>mnemonicItem.
            let mnemonic = extended mnemonicItem in
            if mnemonic = [] then
              seq (emit (SendEvent
                     ''TruffleCommands.getPrivateKeyFromMnemonic.mnemonicFileHaveNoText'' []))
                (emit (ShowErrorMessage MnemonicFileHaveNoText))
            else
              seq (try_catch
                     (bind (lift (mnemonicToSeed lib mnemonic)) (\<lambda>buffer.
                      bind (lift (fromMasterSeed lib buffer)) (\<lambda>key.
                      bind (lift (derive lib key ''m/44'/60'/0'/0/0'')) (\<lambda>childKey.
                      bind (lift (privateKey_toString lib childKey)) (\<lambda>privateKey.
                      seq (call w (WriteToClipboard privateKey))
                        (emit (ShowInformationMessage privateKeyWasCopiedToClipboard)))))))
                     (\<lambda>error.
                        seq (emit (SendException error))
                          (emit (ShowErrorMessage InvalidMnemonic))))
                (emit (SendEvent
                   ''TruffleCommands.getPrivateKeyFromMnemonic.commandFinished'' [])))))"

section \<open>Reading a run\<close>

text \<open>
  The network nodes of the tree: the \<open>NetworkNode\<close> children of every project of every
  service, in tree order.
\<close>

definition treeNetworkNodes :: "Service list \<Rightarrow> NetworkNode list" where
  "treeNetworkNodes services =
     concat (map (\<lambda>project. asNetworkNodes (Project_children project))
               (concat (map Service_children services)))"

text \<open>The lists that the destination quick pick was shown with, in order.\<close>

fun offered :: "event list \<Rightarrow> IDeployDestination list list" where
  "offered [] = []"
| "offered (ShowQuickPick items # evs) = items # offered evs"
| "offered (ev # evs) = offered evs"

text \<open>The texts written to the clipboard, in order.\<close>

fun clipboard :: "event list \<Rightarrow> string list" where
  "clipboard [] = []"
| "clipboard (WriteToClipboard s # evs) = s # clipboard evs"
| "clipboard (ev # evs) = clipboard evs"

text \<open>
  The events that only a deployment strategy causes: each function that a destination's
  \<open>cmd\<close> can be bound to begins with one of them.
\<close>

fun strategy_event :: "event \<Rightarrow> bool" where
  "strategy_event (SendEvent n props) =
     (n = ''TruffleCommands.createNewDeploymentService.commandStarted'')"
| "strategy_event ConnectProject = True"
| "strategy_event (StartGanacheServer p) = True"
| "strategy_event ShowConfirmPaidOperationDialog = True"
| "strategy_event (GetTruffleNetwork n) = True"
| "strategy_event (SetNetworks p n) = True"
| "strategy_event (WithProgress m) = True"
| "strategy_event (EnsureDir d) = True"
| "strategy_event (ExecuteCommand d c args) = True"
| "strategy_event UpdateContracts = True"
| "strategy_event ev = False"

text \<open>The telemetry that the two classification functions send.\<close>

fun selection_event :: "event \<Rightarrow> bool" where
  "selection_event (SendEvent n props) =
     (n \<in> set [''TruffleCommands.getTruffleDeployFunction.returnDeployToLocalGanache'',
                ''TruffleCommands.getTruffleDeployFunction.returnDeployToMainNetwork'',
                ''TruffleCommands.getTruffleDeployFunction.returnDeployToNetwork'',
                ''TruffleCommands.getServiceCreateFunction.returnCreateLocalGanacheNetwork'',
                ''TruffleCommands.getServiceCreateFunction.returnCreateService''])"
| "selection_event ev = False"

text \<open>A run throws; a run causes no event of a deployment strategy.\<close>

definition throws :: "'a io \<Rightarrow> bool" where
  "throws m = (case fst m of Inl e \<Rightarrow> True | Inr x \<Rightarrow> False)"

definition quiet :: "'a io \<Rightarrow> bool" where
  "quiet m = list_all (\<lambda>ev. \<not> strategy_event ev) (snd m)"

text \<open>
  The destination of a tree node: labelled with the node's label, described by its RPC
  address, carrying its network id, and bound to the function that
  \<open>getServiceCreateFunction\<close> chooses for it.
\<close>

definition treeDestination :: "world \<Rightarrow> string \<Rightarrow> NetworkNode \<Rightarrow> IDeployDestination" where
  "treeDestination w truffleConfigPath network =
     \<lparr>cmd = (if LocalNetworkNode_port network = Some (defaultLocalhostPort w)
             then CreateLocalGanacheNetwork network truffleConfigPath
             else CreateNetwork network truffleConfigPath),
      cwd = None,
      description = (case getRPCAddress w network of Inl e \<Rightarrow> None | Inr address \<Rightarrow> Some address),
      detail = Some ''Tree Item'',
      label = NetworkNode_label network,
      networkId = NetworkNode_networkId network\<rparr>"

text \<open>
  The private key of a mnemonic as the libraries give it: the hex text of the private key
  of the child at \<open>m/44'/60'/0'/0/0\<close> of the HD key of the mnemonic's BIP-39 seed; an
  error when one of the calls throws.
\<close>

definition privateKey_of_mnemonic :: "('seed, 'key) libraries \<Rightarrow> string \<Rightarrow> error + string" where
  "privateKey_of_mnemonic lib mnemonic =
     (case mnemonicToSeed lib mnemonic of
        Inl e \<Rightarrow> Inl e
      | Inr seed \<Rightarrow>
          (case fromMasterSeed lib seed of
             Inl e \<Rightarrow> Inl e
           | Inr key \<Rightarrow>
               (case derive lib key ''m/44'/60'/0'/0/0'' of
                  Inl e \<Rightarrow> Inl e
                | Inr child \<Rightarrow> privateKey_toString lib child)))"

section \<open>An example workspace\<close>

text \<open>
  A workspace with a local development network and a main-network entry in its truffle
  configuration, and a tree holding a local node and a consortium member node.
\<close>

definition development :: INetwork where
  "development =
     \<lparr>network_name = ''development'',
      options = \<lparr>provider = None, host = Some ''127.0.0.1'', port = Some 8545,
                 network_id = StringId ''*''\<rparr>\<rparr>"

definition mainnet :: INetwork where
  "mainnet =
     \<lparr>network_name = ''mainnet'',
      options = \<lparr>provider = Some \<lparr>provider_url = Some ''https://mainnet.example.org/rpc''\<rparr>,
                 host = None, port = None, network_id = NumberId 1\<rparr>\<rparr>"

definition localNode :: NetworkNode where
  "localNode = LocalNetworkNode ''localhost:8545'' (StringId ''*'') 8545"

definition memberNode :: NetworkNode where
  "memberNode = AzureBlockchainNetworkNode ''member1'' (NumberId 1337)"

definition example_world :: world where
  "example_world =
     \<lparr>defaultLocalhostPort = 8545,
      createProject = ''Create a new network'',
      truffle = ''truffle'',
      dirname = (\<lambda>p. ''/ws''),
      obfuscate = (\<lambda>s. s),
      fails = (\<lambda>ev. None),
      getTruffleConfigUri = Inr ''/ws/truffle-config.js'',
      getNetworks = (\<lambda>p. Inr [development, mainnet]),
      getItems = [Service ''Local Service'' [Project ''local'' [NetworkNodeItem localNode]],
                  Service ''Azure Blockchain Service''
                    [Project ''consortium'' [Member ''member1'', NetworkNodeItem memberNode]]],
      getRPCAddress = (\<lambda>n. case n of
                          LocalNetworkNode l i p \<Rightarrow> Inr ''http://127.0.0.1:8545''
                        | AzureBlockchainNetworkNode l i \<Rightarrow> Inr ''https://member1.example.org:3200''),
      getTruffleNetwork = (\<lambda>n. Inr development),
      getPortFromUrl = (\<lambda>u. Some 8545),
      pickedDestination = (\<lambda>items. Inr 2),
      checkAppsSilent = Inr True,
      isHdWalletProviderRequired = Inr False,
      checkHdWalletProviderVersion = Inr True,
      validateContracts = Inr [\<lparr>contractPath = ''contracts/ERC20.sol'', isExistedOnDisk = True,
                                isHashValid = False\<rparr>],
      connectProject = Inr (Project ''local'' [NetworkNodeItem localNode]),
      getExistedMnemonicPaths = Inr [''/ws/mnemonic.env''],
      getMnemonic = (\<lambda>p. Inr ''abandon ability able''),
      MaskMnemonic = (\<lambda>m. take 3 m @ '' ... ''),
      pickedMnemonic = (\<lambda>items. Inr 0)\<rparr>"


text \<open>Libraries over toy seeds and keys: a key is the list of path names it was derived by.\<close>

definition example_libraries :: "(string, string list) libraries" where
  "example_libraries =
     \<lparr>mnemonicToSeed = (\<lambda>m. if length m < 4 then Inl (Thrown ''Invalid mnemonic'') else Inr m),
      fromMasterSeed = (\<lambda>seed. Inr [seed]),
      derive = (\<lambda>key path. Inr (key @ [path])),
      privateKey_toString = (\<lambda>key. Inr (concat key))\<rparr>"

text \<open>
  A workspace whose truffle configuration names the same local endpoint twice, with an
  empty tree; the user picks the second entry of the list.
\<close>

definition test_network :: INetwork where
  "test_network =
     \<lparr>network_name = ''test'',
      options = \<lparr>provider = None, host = Some ''127.0.0.1'', port = Some 8545,
                 network_id = StringId ''*''\<rparr>\<rparr>"

definition duplicate_world :: world where
  "duplicate_world =
     example_world
       \<lparr>getNetworks := (\<lambda>p. Inr [development, test_network]),
        getItems := [],
        pickedDestination := (\<lambda>items. Inr 1),
        validateContracts := Inr []\<rparr>"


section \<open>Outcome and events of a sequence\<close>

lemma fst_bind: "fst (bind m f) = (case fst m of Inl e \<Rightarrow> Inl e | Inr x \<Rightarrow> fst (f x))"
  by (simp add: bind_def split: prod.splits sum.splits)

lemma snd_bind: "snd (bind m f) = snd m @ (case fst m of Inl e \<Rightarrow> [] | Inr x \<Rightarrow> snd (f x))"
  by (simp add: bind_def split: prod.splits sum.splits)

lemma fst_seq: "fst (seq m k) = (case fst m of Inl e \<Rightarrow> Inl e | Inr x \<Rightarrow> fst k)"
  by (simp add: seq_def fst_bind)

lemma snd_seq: "snd (seq m k) = snd m @ (case fst m of Inl e \<Rightarrow> [] | Inr x \<Rightarrow> snd k)"
  by (simp add: seq_def snd_bind)

lemma io_simps:
  "fst (ret x) = Inr x" "snd (ret x) = []"
  "fst (throw e) = Inl e" "snd (throw e) = []"
  "fst (emit ev) = Inr ()" "snd (emit ev) = [ev]"
  "fst (call w ev) = (case fails w ev of None \<Rightarrow> Inr () | Some e \<Rightarrow> Inl e)" "snd (call w ev) = [ev]"
  "fst (ask ev r) = r" "snd (ask ev r) = [ev]"
  "fst (lift r) = r" "snd (lift r) = []"
  by (simp_all add: ret_def throw_def emit_def call_def ask_def lift_def split: option.splits)

lemmas io = fst_bind snd_bind fst_seq snd_seq io_simps


text \<open>
  The item that a quick pick returns is one of the items shown; in
  \<open>createNewDeploymentService\<close> each of them is bound to \<open>createNetwork\<close>, so the
  call \<open>command.cmd()\<close> there is always a call of \<open>createNetwork\<close>.
\<close>

lemma settled_cmd:
  "d \<in> set (settled w truffleConfigPath networks) \<Longrightarrow>
     \<exists>network. cmd d = CreateNetwork network truffleConfigPath"
  by (induction networks) (auto split: sum.splits)

lemma showQuickPick_member:
  "fst (showQuickPick w items) = Inr d \<Longrightarrow> d \<in> set items"
  by (auto simp: showQuickPick_def io_simps split: sum.splits if_splits)

section \<open>What the pattern matches\<close>

lemma match_here_iff:
  "match_here re s \<longleftrightarrow> (\<exists>mid post. s = mid @ post \<and> list_all2 atom_matches re mid)"
proof (induction re s rule: match_here.induct)
  case (1 s)
  then show ?case by simp
next
  case (2 a as)
  then show ?case by (simp add: list_all2_Cons1)
next
  case (3 a as c cs)
  show ?case
  proof
    assume "match_here (a # as) (c # cs)"
    then have "atom_matches a c" and "match_here as cs" by simp_all
    then obtain mid post where "cs = mid @ post" "list_all2 atom_matches as mid"
      using 3 by blast
    then have "c # cs = (c # mid) @ post \<and> list_all2 atom_matches (a # as) (c # mid)"
      using \<open>atom_matches a c\<close> by simp
    then show "\<exists>mid post. c # cs = mid @ post \<and> list_all2 atom_matches (a # as) mid" by blast
  next
    assume "\<exists>mid post. c # cs = mid @ post \<and> list_all2 atom_matches (a # as) mid"
    then obtain mid post where m: "c # cs = mid @ post" "list_all2 atom_matches (a # as) mid" by blast
    then obtain m' where m': "mid = c # m'" "atom_matches a c" "list_all2 atom_matches as m'"
      by (cases mid) auto
    with m have "cs = m' @ post" by simp
    with m' 3 show "match_here (a # as) (c # cs)" by auto
  qed
qed

lemma String_match_iff:
  "String_match s re \<longleftrightarrow> (\<exists>pre mid post. s = pre @ mid @ post \<and> list_all2 atom_matches re mid)"
proof (induction s)
  case Nil
  then show ?case by (auto simp: match_here_iff)
next
  case (Cons c cs)
  show ?case
  proof
    assume "String_match (c # cs) re"
    then consider "match_here re (c # cs)" | "String_match cs re" by auto
    then show "\<exists>pre mid post. c # cs = pre @ mid @ post \<and> list_all2 atom_matches re mid"
    proof cases
      case 1
      then obtain mid post where "c # cs = [] @ mid @ post \<and> list_all2 atom_matches re mid"
        by (auto simp: match_here_iff)
      then show ?thesis by blast
    next
      case 2
      then obtain pre mid post where "cs = pre @ mid @ post" "list_all2 atom_matches re mid"
        using Cons by blast
      then have "c # cs = (c # pre) @ mid @ post \<and> list_all2 atom_matches re mid" by simp
      then show ?thesis by blast
    qed
  next
    assume "\<exists>pre mid post. c # cs = pre @ mid @ post \<and> list_all2 atom_matches re mid"
    then obtain pre mid post where h: "c # cs = pre @ mid @ post" "list_all2 atom_matches re mid" by blast
    show "String_match (c # cs) re"
    proof (cases pre)
      case Nil
      with h have "match_here re (c # cs)" by (auto simp: match_here_iff)
      then show ?thesis by simp
    next
      case (Cons p ps)
      with h have "cs = ps @ mid @ post" by simp
      with h Cons.IH have "String_match cs re" by blast
      then show ?thesis by simp
    qed
  qed
qed


lemma digit_char_no_dot: "d < 10 \<Longrightarrow> digit_char d \<noteq> CHR ''.''"
proof -
  assume "d < 10"
  then have "''0123456789'' ! d \<in> set ''0123456789''" by (intro nth_mem) simp
  then show ?thesis unfolding digit_char_def by auto
qed

lemma toString_nat_no_dot: "CHR ''.'' \<notin> set (toString_nat n)"
proof (induction n rule: toString_nat.induct)
  case (1 n)
  show ?case
  proof (cases "n < 10")
    case True
    then show ?thesis using digit_char_no_dot[of n] by (simp add: toString_nat.simps[of n])
  next
    case False
    then show ?thesis using 1 digit_char_no_dot[of "n mod 10"]
      by (simp add: toString_nat.simps[of n])
  qed
qed

lemma literal_atoms_match:
  "CHR ''.'' \<notin> set ds \<Longrightarrow> list_all2 atom_matches (map atom_of ds) m \<longleftrightarrow> m = ds"
proof (induction ds arbitrary: m)
  case Nil
  then show ?case by simp
next
  case (Cons d ds)
  then show ?case by (cases m) auto
qed

lemma localGanacheRegexp_matches:
  "list_all2 atom_matches (localGanacheRegexp w) mid \<longleftrightarrow>
     (\<exists>a b c. mid = ''127'' @ [a] @ ''0'' @ [b] @ ''0'' @ [c] @ ''1:'' @
                 toString_nat (defaultLocalhostPort w) \<and>
        atom_matches AnyChar a \<and> atom_matches AnyChar b \<and> atom_matches AnyChar c)"
  using literal_atoms_match[OF toString_nat_no_dot, of "defaultLocalhostPort w"]
  by (auto simp: localGanacheRegexp_def list_all2_Cons1)

text \<open>
  The pattern finds, somewhere in the URL, the text \<open>127\<close>, one character, \<open>0\<close>, one
  character, \<open>0\<close>, one character, \<open>1:\<close> and the port; the three characters are any but
  line terminators.
\<close>

lemma String_match_localGanacheRegexp:
  "String_match url (localGanacheRegexp w) \<longleftrightarrow>
     (\<exists>pre a b c post.
        url = pre @ ''127'' @ [a] @ ''0'' @ [b] @ ''0'' @ [c] @ ''1:'' @
              toString_nat (defaultLocalhostPort w) @ post \<and>
        atom_matches AnyChar a \<and> atom_matches AnyChar b \<and> atom_matches AnyChar c)"
proof
  assume "String_match url (localGanacheRegexp w)"
  then obtain pre mid post where u: "url = pre @ mid @ post"
    and m: "list_all2 atom_matches (localGanacheRegexp w) mid"
    unfolding String_match_iff by blast
  from m obtain a b c where
    "mid = ''127'' @ [a] @ ''0'' @ [b] @ ''0'' @ [c] @ ''1:'' @ toString_nat (defaultLocalhostPort w)"
    "atom_matches AnyChar a" "atom_matches AnyChar b" "atom_matches AnyChar c"
    unfolding localGanacheRegexp_matches by blast
  with u show "\<exists>pre a b c post.
        url = pre @ ''127'' @ [a] @ ''0'' @ [b] @ ''0'' @ [c] @ ''1:'' @
              toString_nat (defaultLocalhostPort w) @ post \<and>
        atom_matches AnyChar a \<and> atom_matches AnyChar b \<and> atom_matches AnyChar c"
    by (intro exI[of _ pre] exI[of _ a] exI[of _ b] exI[of _ c] exI[of _ post]) simp
next
  assume "\<exists>pre a b c post.
        url = pre @ ''127'' @ [a] @ ''0'' @ [b] @ ''0'' @ [c] @ ''1:'' @
              toString_nat (defaultLocalhostPort w) @ post \<and>
        atom_matches AnyChar a \<and> atom_matches AnyChar b \<and> atom_matches AnyChar c"
  then obtain pre a b c post where
    u: "url = pre @ (''127'' @ [a] @ ''0'' @ [b] @ ''0'' @ [c] @ ''1:'' @
              toString_nat (defaultLocalhostPort w)) @ post"
    and abc: "atom_matches AnyChar a" "atom_matches AnyChar b" "atom_matches AnyChar c"
    by auto
  from abc have "list_all2 atom_matches (localGanacheRegexp w)
     (''127'' @ [a] @ ''0'' @ [b] @ ''0'' @ [c] @ ''1:'' @ toString_nat (defaultLocalhostPort w))"
    unfolding localGanacheRegexp_matches by blast
  with u show "String_match url (localGanacheRegexp w)"
    unfolding String_match_iff by blast
qed

section \<open>Classification of configured networks\<close>

text \<open>
  C2. \<open>getTruffleDeployFunction\<close> returns the local-Ganache strategy when the URL matches
  \<open>localGanacheRegexp\<close>, whatever the network id; otherwise the main-network strategy when
  the network id is the number 1 or the string \<open>1\<close>; otherwise the plain network strategy.
\<close>

theorem getTruffleDeployFunction_classifies:
  "fst (getTruffleDeployFunction w url name truffleConfigPath networkId') =
     Inr (if String_match url (localGanacheRegexp w)
          then DeployToLocalGanache name truffleConfigPath url
          else if networkId' = NumberId 1 \<or> networkId' = StringId ''1''
          then DeployToMainNetwork name truffleConfigPath
          else DeployToNetwork name truffleConfigPath)"
  by (simp add: io)

lemma toString_8545: "toString_nat 8545 = ''8545''"
  by (simp add: toString_nat.simps digit_char_def)

lemma snd_deployToNetwork_first:
  "\<exists>rest. snd (deployToNetwork w networkName truffleConfigPath) =
     WithProgress (deployingContracts networkName) # rest"
  by (simp add: deployToNetwork_def io Let_def)

section \<open>The production network is confirmed first\<close>

text \<open>
  C3. A destination whose URL is not the local Ganache one and whose network id is 1 gets
  \<open>deployToMainNetwork\<close>. Calling it asks for the paid-operation confirmation first:
  when the dialog throws, nothing else happens and the call throws; when it completes,
  the events of \<open>deployToNetwork\<close> follow it, and none of them precedes it.
\<close>

theorem deployToMainNetwork_confirms_first:
  assumes "\<not> String_match url (localGanacheRegexp w)"
    and "networkId' = NumberId 1 \<or> networkId' = StringId ''1''"
  shows "fst (getTruffleDeployFunction w url name truffleConfigPath networkId') =
           Inr (DeployToMainNetwork name truffleConfigPath) \<and>
         run_cmd w (DeployToMainNetwork name truffleConfigPath) =
           (case fails w ShowConfirmPaidOperationDialog of
              Some e \<Rightarrow> (Inl e, [ShowConfirmPaidOperationDialog])
            | None \<Rightarrow> (fst (deployToNetwork w name truffleConfigPath),
                       ShowConfirmPaidOperationDialog # snd (deployToNetwork w name truffleConfigPath))) \<and>
         ShowConfirmPaidOperationDialog \<notin> set (snd (deployToNetwork w name truffleConfigPath)) \<and>
         snd (deployToNetwork w name truffleConfigPath) \<noteq> []"
proof -
  have 1: "fst (getTruffleDeployFunction w url name truffleConfigPath networkId') =
           Inr (DeployToMainNetwork name truffleConfigPath)"
    using assms by (auto simp: io)
  have 2: "run_cmd w (DeployToMainNetwork name truffleConfigPath) =
           (case fails w ShowConfirmPaidOperationDialog of
              Some e \<Rightarrow> (Inl e, [ShowConfirmPaidOperationDialog])
            | None \<Rightarrow> (fst (deployToNetwork w name truffleConfigPath),
                       ShowConfirmPaidOperationDialog # snd (deployToNetwork w name truffleConfigPath)))"
    by (simp add: deployToMainNetwork_def prod_eq_iff io split: option.splits)
  have 3: "ShowConfirmPaidOperationDialog \<notin> set (snd (deployToNetwork w name truffleConfigPath))"
    by (simp add: deployToNetwork_def io Let_def split: option.splits sum.splits)
  have 4: "snd (deployToNetwork w name truffleConfigPath) \<noteq> []"
    by (simp add: deployToNetwork_def io Let_def)
  show ?thesis by (rule conjI[OF 1 conjI[OF 2 conjI[OF 3 4]]])
qed

theorem deployToMainNetwork_confirms_first_witness:
  "fst (getTruffleDeployFunction example_world ''https://mainnet.example.org/rpc'' ''mainnet''
          ''/ws/truffle-config.js'' (NumberId 1)) =
     Inr (DeployToMainNetwork ''mainnet'' ''/ws/truffle-config.js'') \<and>
   snd (run_cmd example_world (DeployToMainNetwork ''mainnet'' ''/ws/truffle-config.js'')) =
     [ShowConfirmPaidOperationDialog,
      WithProgress (deployingContracts ''mainnet''),
      EnsureDir ''/ws'',
      ExecuteCommand ''/ws'' ''npx'' [''truffle'', ''migrate'', ''--reset'', ''--network'', ''mainnet''],
      UpdateContracts]"
proof -
  have h: "\<not> String_match ''https://mainnet.example.org/rpc'' (localGanacheRegexp example_world)"
    by (simp add: localGanacheRegexp_def example_world_def toString_8545)
  show ?thesis
    using deployToMainNetwork_confirms_first[OF h, of "NumberId 1" "''mainnet''" "''/ws/truffle-config.js''"]
    by (simp add: example_world_def deployToNetwork_def io Let_def)
qed

lemma deployToNetwork_no_ganache:
  "StartGanacheServer pt \<notin> set (snd (deployToNetwork w networkName truffleConfigPath))"
  by (simp add: deployToNetwork_def io Let_def split: option.splits sum.splits)

section \<open>The local chain is started before the migration\<close>

text \<open>
  C7. A destination whose URL matches the local-Ganache pattern gets
  \<open>deployToLocalGanache\<close>. Calling it starts the Ganache server on the port that
  \<open>getPortFromUrl\<close> reads from the URL; the events of \<open>deployToNetwork\<close> come after
  that start, and only when the start did not throw.
\<close>

theorem deployToLocalGanache_starts_server_first:
  assumes "String_match url (localGanacheRegexp w)"
  shows "fst (getTruffleDeployFunction w url name truffleConfigPath networkId') =
           Inr (DeployToLocalGanache name truffleConfigPath url) \<and>
         run_cmd w (DeployToLocalGanache name truffleConfigPath url) =
           (case fails w (StartGanacheServer (getPortFromUrl w url)) of
              Some e \<Rightarrow> (Inl e, [StartGanacheServer (getPortFromUrl w url)])
            | None \<Rightarrow> (fst (deployToNetwork w name truffleConfigPath),
                       StartGanacheServer (getPortFromUrl w url) #
                       snd (deployToNetwork w name truffleConfigPath))) \<and>
         StartGanacheServer (getPortFromUrl w url) \<notin>
           set (snd (deployToNetwork w name truffleConfigPath)) \<and>
         snd (deployToNetwork w name truffleConfigPath) \<noteq> []"
proof -
  have 1: "fst (getTruffleDeployFunction w url name truffleConfigPath networkId') =
           Inr (DeployToLocalGanache name truffleConfigPath url)"
    using assms by (simp add: io)
  have 2: "run_cmd w (DeployToLocalGanache name truffleConfigPath url) =
           (case fails w (StartGanacheServer (getPortFromUrl w url)) of
              Some e \<Rightarrow> (Inl e, [StartGanacheServer (getPortFromUrl w url)])
            | None \<Rightarrow> (fst (deployToNetwork w name truffleConfigPath),
                       StartGanacheServer (getPortFromUrl w url) #
                       snd (deployToNetwork w name truffleConfigPath)))"
    by (simp add: deployToLocalGanache_def Let_def prod_eq_iff io split: option.splits)
  have 4: "snd (deployToNetwork w name truffleConfigPath) \<noteq> []"
    by (simp add: deployToNetwork_def io Let_def)
  show ?thesis by (rule conjI[OF 1 conjI[OF 2 conjI[OF deployToNetwork_no_ganache 4]]])
qed

theorem deployToLocalGanache_starts_server_first_witness:
  "fst (getTruffleDeployFunction example_world ''127.0.0.1:8545'' ''development''
          ''/ws/truffle-config.js'' (NumberId 1)) =
     Inr (DeployToLocalGanache ''development'' ''/ws/truffle-config.js'' ''127.0.0.1:8545'') \<and>
   snd (run_cmd example_world
          (DeployToLocalGanache ''development'' ''/ws/truffle-config.js'' ''127.0.0.1:8545'')) =
     [StartGanacheServer (Some 8545),
      WithProgress (deployingContracts ''development''),
      EnsureDir ''/ws'',
      ExecuteCommand ''/ws'' ''npx''
        [''truffle'', ''migrate'', ''--reset'', ''--network'', ''development''],
      UpdateContracts]"
proof -
  have h: "String_match ''127.0.0.1:8545'' (localGanacheRegexp example_world)"
    by (simp add: localGanacheRegexp_def example_world_def toString_8545)
  show ?thesis
    using deployToLocalGanache_starts_server_first[OF h, of "''development''"
        "''/ws/truffle-config.js''" "NumberId 1"]
    by (simp add: example_world_def deployToNetwork_def io Let_def)
qed

section \<open>Classification of tree items\<close>

text \<open>
  C6. \<open>getServiceCreateFunction\<close> returns \<open>createLocalGanacheNetwork\<close> exactly for a
  \<open>LocalNetworkNode\<close> whose port is the default localhost port, and \<open>createNetwork\<close>
  for every other node. \<open>createLocalGanacheNetwork\<close> starts the Ganache server on the
  node's port and then does what \<open>createNetwork\<close> does; \<open>createNetwork\<close> reads the
  node's truffle network, writes it to the truffle configuration and then deploys to it.
\<close>

theorem getServiceCreateFunction_classifies:
  "fst (getServiceCreateFunction w networkNode truffleConfigPath) =
     Inr (if LocalNetworkNode_port networkNode = Some (defaultLocalhostPort w)
          then CreateLocalGanacheNetwork networkNode truffleConfigPath
          else CreateNetwork networkNode truffleConfigPath) \<and>
   run_cmd w (CreateLocalGanacheNetwork networkNode truffleConfigPath) =
     (case fails w (StartGanacheServer (LocalNetworkNode_port networkNode)) of
        Some e \<Rightarrow> (Inl e, [StartGanacheServer (LocalNetworkNode_port networkNode)])
      | None \<Rightarrow> (fst (createNetwork w networkNode truffleConfigPath),
                 StartGanacheServer (LocalNetworkNode_port networkNode) #
                 snd (createNetwork w networkNode truffleConfigPath))) \<and>
   run_cmd w (CreateNetwork networkNode truffleConfigPath) =
     (case getTruffleNetwork w networkNode of
        Inl e \<Rightarrow> (Inl e, [GetTruffleNetwork networkNode])
      | Inr network \<Rightarrow>
          (case fails w (SetNetworks truffleConfigPath network) of
             Some e \<Rightarrow> (Inl e, [GetTruffleNetwork networkNode, SetNetworks truffleConfigPath network])
           | None \<Rightarrow> (fst (deployToNetwork w (network_name network) truffleConfigPath),
                      GetTruffleNetwork networkNode # SetNetworks truffleConfigPath network #
                      snd (deployToNetwork w (network_name network) truffleConfigPath))))"
proof -
  have 1: "fst (getServiceCreateFunction w networkNode truffleConfigPath) =
     Inr (if LocalNetworkNode_port networkNode = Some (defaultLocalhostPort w)
          then CreateLocalGanacheNetwork networkNode truffleConfigPath
          else CreateNetwork networkNode truffleConfigPath)"
    by (cases networkNode) (simp_all add: io)
  have 2: "run_cmd w (CreateLocalGanacheNetwork networkNode truffleConfigPath) =
     (case fails w (StartGanacheServer (LocalNetworkNode_port networkNode)) of
        Some e \<Rightarrow> (Inl e, [StartGanacheServer (LocalNetworkNode_port networkNode)])
      | None \<Rightarrow> (fst (createNetwork w networkNode truffleConfigPath),
                 StartGanacheServer (LocalNetworkNode_port networkNode) #
                 snd (createNetwork w networkNode truffleConfigPath)))"
    by (simp add: createLocalGanacheNetwork_def prod_eq_iff io split: option.splits)
  have 3: "run_cmd w (CreateNetwork networkNode truffleConfigPath) =
     (case getTruffleNetwork w networkNode of
        Inl e \<Rightarrow> (Inl e, [GetTruffleNetwork networkNode])
      | Inr network \<Rightarrow>
          (case fails w (SetNetworks truffleConfigPath network) of
             Some e \<Rightarrow> (Inl e, [GetTruffleNetwork networkNode, SetNetworks truffleConfigPath network])
           | None \<Rightarrow> (fst (deployToNetwork w (network_name network) truffleConfigPath),
                      GetTruffleNetwork networkNode # SetNetworks truffleConfigPath network #
                      snd (deployToNetwork w (network_name network) truffleConfigPath))))"
    by (simp add: createNetwork_def prod_eq_iff io split: option.splits sum.splits)
  show ?thesis by (rule conjI[OF 1 conjI[OF 2 3]])
qed

theorem getServiceCreateFunction_classifies_witness:
  "fst (getServiceCreateFunction example_world localNode ''/ws/truffle-config.js'') =
     Inr (CreateLocalGanacheNetwork localNode ''/ws/truffle-config.js'') \<and>
   fst (getServiceCreateFunction example_world memberNode ''/ws/truffle-config.js'') =
     Inr (CreateNetwork memberNode ''/ws/truffle-config.js'') \<and>
   snd (run_cmd example_world (CreateLocalGanacheNetwork localNode ''/ws/truffle-config.js'')) =
     [StartGanacheServer (Some 8545),
      GetTruffleNetwork localNode,
      SetNetworks ''/ws/truffle-config.js'' development,
      WithProgress (deployingContracts ''development''),
      EnsureDir ''/ws'',
      ExecuteCommand ''/ws'' ''npx''
        [''truffle'', ''migrate'', ''--reset'', ''--network'', ''development''],
      UpdateContracts]"
  using getServiceCreateFunction_classifies[of example_world localNode "''/ws/truffle-config.js''"]
    getServiceCreateFunction_classifies[of example_world memberNode "''/ws/truffle-config.js''"]
  by (simp add: example_world_def localNode_def memberNode_def development_def
      createNetwork_def deployToNetwork_def io Let_def)

section \<open>Copying the RPC endpoint address\<close>

lemma asNetworkNodes_filter:
  "asNetworkNodes (filter instanceofNetworkNode cs) = asNetworkNodes cs"
  by (induction cs rule: asNetworkNodes.induct) simp_all

lemma snd_Project_getRPCAddress: "snd (Project_getRPCAddress w project) = []"
  by (simp add: Project_getRPCAddress_def Let_def io)

lemma snd_writeRPCEndpointAddressToBuffer:
  "snd (writeRPCEndpointAddressToBuffer w project) =
     SendEvent ''TruffleCommands.writeRPCEndpointAddressToBuffer.commandStarted'' [] #
     (case fst (Project_getRPCAddress w project) of
        Inl e \<Rightarrow> []
      | Inr a \<Rightarrow>
          SendEvent ''TruffleCommands.writeRPCEndpointAddressToBuffer.getRPCAddress''
            [(''data'', obfuscate w a)] #
          (if a \<noteq> [] then
             WriteToClipboard a #
             (case fails w (WriteToClipboard a) of
                None \<Rightarrow> [ShowInformationMessage rpcEndpointCopiedToClipboard]
              | Some e \<Rightarrow> [])
           else []))"
  by (simp add: writeRPCEndpointAddressToBuffer_def io snd_Project_getRPCAddress
      split: sum.splits option.splits)

text \<open>
  C10. \<open>Project.getRPCAddress\<close> returns the empty string for a project without
  \<open>NetworkNode\<close> children and otherwise the RPC address of the first such child.
  \<open>writeRPCEndpointAddressToBuffer\<close> writes to the clipboard, and shows the
  confirmation message, only when that address is a non-empty string; it writes whenever
  the address is one.
\<close>

theorem getRPCAddress_first_node:
  "Project_getRPCAddress w project =
     (case asNetworkNodes (Project_children project) of
        [] \<Rightarrow> (Inr [], [])
      | networkNode # others \<Rightarrow> (getRPCAddress w networkNode, [])) \<and>
   (\<forall>s. WriteToClipboard s \<in> set (snd (writeRPCEndpointAddressToBuffer w project)) \<longrightarrow>
        s \<noteq> [] \<and> fst (Project_getRPCAddress w project) = Inr s) \<and>
   (\<forall>m. ShowInformationMessage m \<in> set (snd (writeRPCEndpointAddressToBuffer w project)) \<longrightarrow>
        (\<exists>s. s \<noteq> [] \<and> fst (Project_getRPCAddress w project) = Inr s \<and>
             WriteToClipboard s \<in> set (snd (writeRPCEndpointAddressToBuffer w project)))) \<and>
   (\<forall>s. s \<noteq> [] \<and> fst (Project_getRPCAddress w project) = Inr s \<longrightarrow>
        WriteToClipboard s \<in> set (snd (writeRPCEndpointAddressToBuffer w project)))"
proof -
  have 1: "Project_getRPCAddress w project =
     (case asNetworkNodes (Project_children project) of
        [] \<Rightarrow> (Inr [], [])
      | networkNode # others \<Rightarrow> (getRPCAddress w networkNode, []))"
    by (simp add: Project_getRPCAddress_def asNetworkNodes_filter Let_def ret_def lift_def
        split: list.splits)
  have 2: "\<forall>s. WriteToClipboard s \<in> set (snd (writeRPCEndpointAddressToBuffer w project)) \<longrightarrow>
        s \<noteq> [] \<and> fst (Project_getRPCAddress w project) = Inr s"
    by (auto simp: snd_writeRPCEndpointAddressToBuffer split: sum.splits if_splits option.splits)
  have 3: "\<forall>m. ShowInformationMessage m \<in> set (snd (writeRPCEndpointAddressToBuffer w project)) \<longrightarrow>
        (\<exists>s. s \<noteq> [] \<and> fst (Project_getRPCAddress w project) = Inr s \<and>
             WriteToClipboard s \<in> set (snd (writeRPCEndpointAddressToBuffer w project)))"
    by (auto simp: snd_writeRPCEndpointAddressToBuffer split: sum.splits if_splits option.splits)
  have 4: "\<forall>s. s \<noteq> [] \<and> fst (Project_getRPCAddress w project) = Inr s \<longrightarrow>
        WriteToClipboard s \<in> set (snd (writeRPCEndpointAddressToBuffer w project))"
    by (auto simp: snd_writeRPCEndpointAddressToBuffer split: sum.splits if_splits option.splits)
  show ?thesis by (rule conjI[OF 1 conjI[OF 2 conjI[OF 3 4]]])
qed

theorem getRPCAddress_first_node_witness:
  "Project_getRPCAddress example_world (Project ''consortium'' [Member ''member1'', NetworkNodeItem memberNode, NetworkNodeItem localNode]) =
     (Inr ''https://member1.example.org:3200'', []) \<and>
   Project_getRPCAddress example_world (Project ''empty'' [Member ''member1'']) = (Inr [], []) \<and>
   snd (writeRPCEndpointAddressToBuffer example_world (Project ''empty'' [Member ''member1''])) =
     [SendEvent ''TruffleCommands.writeRPCEndpointAddressToBuffer.commandStarted'' [],
      SendEvent ''TruffleCommands.writeRPCEndpointAddressToBuffer.getRPCAddress'' [(''data'', [])]]"
  using getRPCAddress_first_node[of example_world "Project ''consortium'' [Member ''member1'', NetworkNodeItem memberNode, NetworkNodeItem localNode]", THEN conjunct1]
    getRPCAddress_first_node[of example_world "Project ''empty'' [Member ''member1'']", THEN conjunct1]
  by (simp add: example_world_def memberNode_def localNode_def snd_writeRPCEndpointAddressToBuffer)

section \<open>Destinations of the tree\<close>

lemma foldl_push_concat:
  "foldl (\<lambda>res x. push res (g x)) acc xs = acc @ concat (map g xs)"
  by (induction xs arbitrary: acc) (simp_all add: push_def)

lemma tree_networks:
  "foldl (\<lambda>res project.
       push res (asNetworkNodes (filter instanceofNetworkNode (Project_children project))))
     [] (foldl (\<lambda>res service. push res (Service_children service)) [] services) =
   treeNetworkNodes services"
  by (simp add: foldl_push_concat treeNetworkNodes_def asNetworkNodes_filter)

lemma fst_Promise_all:
  "case fst (Promise_all (map f xs)) of
     Inr ys \<Rightarrow> ys = map (\<lambda>x. projr (fst (f x))) xs \<and> (\<forall>x\<in>set xs. \<exists>y. fst (f x) = Inr y)
   | Inl e \<Rightarrow> \<exists>x\<in>set xs. fst (f x) = Inl e"
proof (induction xs)
  case Nil
  then show ?case by (simp add: ret_def)
next
  case (Cons x xs)
  then show ?case
    by (cases "f x"; cases "Promise_all (map f xs)") (auto split: sum.splits)
qed

lemma snd_Promise_all:
  "snd (Promise_all (map f xs)) = concat (map (\<lambda>x. snd (f x)) xs)"
  by (induction xs) (auto simp: ret_def split: prod.splits)

lemma fst_getServiceCreateFunction:
  "fst (getServiceCreateFunction w network truffleConfigPath) =
     Inr (if LocalNetworkNode_port network = Some (defaultLocalhostPort w)
          then CreateLocalGanacheNetwork network truffleConfigPath
          else CreateNetwork network truffleConfigPath)"
  by (cases network) (simp_all add: io)

text \<open>
  C5. When \<open>getTreeDeployDestinations\<close> returns, its result has exactly one destination per
  \<open>NetworkNode\<close> child of the projects of the services of the tree, in tree order, each
  with the node's label, RPC address and network id; it throws only when the
  \<open>getRPCAddress\<close> of some node throws.
\<close>

theorem getTreeDeployDestinations_one_per_node:
  "case fst (getTreeDeployDestinations w truffleConfigPath) of
     Inr destinations \<Rightarrow>
       destinations = map (treeDestination w truffleConfigPath) (treeNetworkNodes (getItems w)) \<and>
       (\<forall>network\<in>set (treeNetworkNodes (getItems w)). \<exists>address. getRPCAddress w network = Inr address)
   | Inl e \<Rightarrow> \<exists>network\<in>set (treeNetworkNodes (getItems w)). getRPCAddress w network = Inl e"
proof -
  let ?f = "\<lambda>network.
           bind (getServiceCreateFunction w network truffleConfigPath) (\<lambda>f.
             bind (lift (getRPCAddress w network)) (\<lambda>address.
               ret \<lparr>cmd = f,
                    cwd = None,
                    description = Some address,
                    detail = Some ''Tree Item'',
                    label = NetworkNode_label network,
                    networkId = NetworkNode_networkId network\<rparr>))"
  have g: "getTreeDeployDestinations w truffleConfigPath =
             Promise_all (map ?f (treeNetworkNodes (getItems w)))"
    by (simp add: getTreeDeployDestinations_def Let_def tree_networks)
  have ok: "fst (?f n) = Inr y \<longleftrightarrow>
              (\<exists>a. getRPCAddress w n = Inr a) \<and> y = treeDestination w truffleConfigPath n" for n y
    by (auto simp: io fst_getServiceCreateFunction treeDestination_def split: sum.splits)
  have bad: "fst (?f n) = Inl e \<longleftrightarrow> getRPCAddress w n = Inl e" for n e
    by (auto simp: io fst_getServiceCreateFunction split: sum.splits)
  have pr: "projr (fst (?f n)) = treeDestination w truffleConfigPath n"
    if "\<exists>y. fst (?f n) = Inr y" for n
  proof -
    from that obtain y where y: "fst (?f n) = Inr y" ..
    then have "y = treeDestination w truffleConfigPath n" using ok[THEN iffD1] by blast
    with y show ?thesis by (simp only: sum.sel)
  qed
  let ?nodes = "treeNetworkNodes (getItems w)"
  show ?thesis
  proof (cases "fst (Promise_all (map ?f ?nodes))")
    case (Inl e)
    with fst_Promise_all[where f = ?f and xs = ?nodes] have "\<exists>x\<in>set ?nodes. fst (?f x) = Inl e" by simp
    then have "\<exists>x\<in>set ?nodes. getRPCAddress w x = Inl e" unfolding bad .
    with Inl show ?thesis unfolding g by simp
  next
    case (Inr ys)
    with fst_Promise_all[where f = ?f and xs = ?nodes]
    have ys: "ys = map (\<lambda>x. projr (fst (?f x))) ?nodes"
      and all: "\<forall>x\<in>set ?nodes. \<exists>y. fst (?f x) = Inr y" by simp_all
    from all have a: "\<forall>x\<in>set ?nodes. \<exists>address. getRPCAddress w x = Inr address"
      unfolding ok by blast
    from all have "map (\<lambda>x. projr (fst (?f x))) ?nodes = map (treeDestination w truffleConfigPath) ?nodes"
      by (intro map_cong refl pr) blast
    with ys a Inr show ?thesis unfolding g by simp
  qed
qed

theorem getTreeDeployDestinations_one_per_node_witness:
  "fst (getTreeDeployDestinations example_world ''/ws/truffle-config.js'') =
     Inr [\<lparr>cmd = CreateLocalGanacheNetwork localNode ''/ws/truffle-config.js'',
           cwd = None,
           description = Some ''http://127.0.0.1:8545'',
           detail = Some ''Tree Item'',
           label = ''localhost:8545'',
           networkId = StringId ''*''\<rparr>,
          \<lparr>cmd = CreateNetwork memberNode ''/ws/truffle-config.js'',
           cwd = None,
           description = Some ''https://member1.example.org:3200'',
           detail = Some ''Tree Item'',
           label = ''member1'',
           networkId = NumberId 1337\<rparr>]"
proof -
  have nodes: "treeNetworkNodes (getItems example_world) = [localNode, memberNode]"
    by (simp add: treeNetworkNodes_def example_world_def)
  have rpc: "getRPCAddress example_world (LocalNetworkNode l i p) = Inr ''http://127.0.0.1:8545''"
    "getRPCAddress example_world (AzureBlockchainNetworkNode l i) =
       Inr ''https://member1.example.org:3200''" for l i p
    by (simp_all add: example_world_def)
  have port: "defaultLocalhostPort example_world = 8545"
    by (simp add: example_world_def)
  show ?thesis
    using getTreeDeployDestinations_one_per_node[of example_world "''/ws/truffle-config.js''"]
    by (cases "fst (getTreeDeployDestinations example_world ''/ws/truffle-config.js'')")
       (simp_all add: nodes rpc port treeDestination_def localNode_def memberNode_def)
qed

section \<open>The candidate destinations\<close>

lemma offered_append: "offered (xs @ ys) = offered xs @ offered ys"
  by (induction xs rule: offered.induct) simp_all

lemma selection_event_not_offered: "list_all selection_event evs \<Longrightarrow> offered evs = []"
  by (induction evs rule: offered.induct) simp_all

lemma selection_event_not_strategy: "selection_event ev \<Longrightarrow> \<not> strategy_event ev"
  by (cases ev) auto

lemma list_all_snd_bind:
  "list_all P (snd m) \<Longrightarrow> (\<And>x. list_all P (snd (f x))) \<Longrightarrow> list_all P (snd (bind m f))"
  by (simp add: snd_bind split: sum.splits)

lemma list_all_snd_forEach_push:
  "(\<And>x. list_all P (snd (f x))) \<Longrightarrow> list_all P (snd (forEach_push f xs acc))"
  by (induction xs arbitrary: acc) (simp_all add: io_simps list_all_snd_bind)

lemma snd_Promise_all': "snd (Promise_all ms) = concat (map snd ms)"
  by (induction ms) (auto simp: ret_def split: prod.splits)

lemma selection_getTruffleDeployFunction:
  "list_all selection_event (snd (getTruffleDeployFunction w url name truffleConfigPath networkId'))"
  by (simp add: io)

lemma selection_getServiceCreateFunction:
  "list_all selection_event (snd (getServiceCreateFunction w networkNode truffleConfigPath))"
  by (cases networkNode) (simp_all add: io)

lemma selection_getTruffleDeployDestinations:
  "list_all selection_event (snd (getTruffleDeployDestinations w truffleConfigPath))"
  unfolding getTruffleDeployDestinations_def Let_def
  by (intro list_all_snd_bind list_all_snd_forEach_push)
     (simp_all add: io_simps selection_getTruffleDeployFunction del: getTruffleDeployFunction.simps)

lemma selection_getTreeDeployDestinations:
  "list_all selection_event (snd (getTreeDeployDestinations w truffleConfigPath))"
proof -
  let ?f = "\<lambda>network.
           bind (getServiceCreateFunction w network truffleConfigPath) (\<lambda>f.
             bind (lift (getRPCAddress w network)) (\<lambda>address.
               ret \<lparr>cmd = f,
                    cwd = None,
                    description = Some address,
                    detail = Some ''Tree Item'',
                    label = NetworkNode_label network,
                    networkId = NetworkNode_networkId network\<rparr>))"
  have one: "list_all selection_event (snd (?f n))" for n
    by (rule list_all_snd_bind, rule selection_getServiceCreateFunction)
       (simp add: snd_bind io_simps split: sum.splits)
  have all: "list_all selection_event (snd (Promise_all (map ?f xs)))" for xs
    unfolding snd_Promise_all' using one by (induction xs) simp_all
  show ?thesis
    unfolding getTreeDeployDestinations_def Let_def by (rule all)
qed

lemma uniqueDestinations_append:
  "uniqueDestinations defaults fromConfig fromTree = defaults @ fromConfig @ fromTree"
  by (simp add: uniqueDestinations_def push_def)

text \<open>
  C4. When the configuration path, the configured networks and the tree are read without
  a throw, the first list that \<open>deployContracts\<close> hands to the quick pick is the default
  destinations, followed by the destinations of the truffle configuration, followed by the
  destinations of the tree.
\<close>

theorem deployContracts_candidates:
  assumes "getTruffleConfigUri w = Inr truffleConfigsUri"
    and "fst (getTruffleDeployDestinations w truffleConfigsUri) = Inr truffleDeployDestinations"
    and "fst (getTreeDeployDestinations w truffleConfigsUri) = Inr treeDeployDestinations"
  shows "\<exists>later. offered (snd (deployContracts w)) =
           (getDefaultDeployDestinations w truffleConfigsUri @ truffleDeployDestinations @
            treeDeployDestinations) # later"
proof -
  have "\<exists>rest. snd (deployContracts w) =
          SendEvent ''TruffleCommands.deployContracts.commandStarted'' [] #
          snd (getTruffleDeployDestinations w truffleConfigsUri) @
          snd (getTreeDeployDestinations w truffleConfigsUri) @
          ShowQuickPick (getDefaultDeployDestinations w truffleConfigsUri @
            truffleDeployDestinations @ treeDeployDestinations) # rest"
    unfolding deployContracts_def Let_def
    by (simp add: fst_bind snd_bind snd_seq io_simps assms showQuickPick_def
        uniqueDestinations_append)
  then obtain rest where "snd (deployContracts w) =
          SendEvent ''TruffleCommands.deployContracts.commandStarted'' [] #
          snd (getTruffleDeployDestinations w truffleConfigsUri) @
          snd (getTreeDeployDestinations w truffleConfigsUri) @
          ShowQuickPick (getDefaultDeployDestinations w truffleConfigsUri @
            truffleDeployDestinations @ treeDeployDestinations) # rest" ..
  then have "offered (snd (deployContracts w)) =
          (getDefaultDeployDestinations w truffleConfigsUri @ truffleDeployDestinations @
            treeDeployDestinations) # offered rest"
    by (simp add: offered_append
        selection_event_not_offered[OF selection_getTruffleDeployDestinations]
        selection_event_not_offered[OF selection_getTreeDeployDestinations])
  then show ?thesis ..
qed

section \<open>Invalid OpenZeppelin contracts stop the deployment\<close>

lemma quiet_bind: "quiet m \<Longrightarrow> (\<And>x. quiet (f x)) \<Longrightarrow> quiet (bind m f)"
  unfolding quiet_def by (rule list_all_snd_bind)

lemma quiet_seq: "quiet m \<Longrightarrow> quiet k \<Longrightarrow> quiet (seq m k)"
  unfolding seq_def by (rule quiet_bind)

lemma throws_quiet_bind:
  "quiet m \<Longrightarrow> (\<And>x. throws (f x) \<and> quiet (f x)) \<Longrightarrow> throws (bind m f) \<and> quiet (bind m f)"
proof -
  assume m: "quiet m" and f: "\<And>x. throws (f x) \<and> quiet (f x)"
  show ?thesis
  proof (cases "fst m")
    case (Inl e)
    with m show ?thesis by (simp add: quiet_def throws_def fst_bind snd_bind)
  next
    case (Inr x)
    with m f[of x] show ?thesis by (simp add: quiet_def throws_def fst_bind snd_bind)
  qed
qed

lemma throws_quiet_seq:
  "quiet m \<Longrightarrow> throws k \<and> quiet k \<Longrightarrow> throws (seq m k) \<and> quiet (seq m k)"
  unfolding seq_def by (rule throws_quiet_bind)

lemma throws_quiet_first:
  "throws m \<and> quiet m \<Longrightarrow> throws (seq m k) \<and> quiet (seq m k)"
  by (simp add: quiet_def throws_def fst_seq snd_seq split: sum.splits)

lemma quiet_selection: "list_all selection_event (snd m) \<Longrightarrow> quiet m"
  unfolding quiet_def by (induction "snd m" arbitrary: m) (auto simp: list_all_iff selection_event_not_strategy)

lemma forEach_emit:
  "(\<And>x. f x = emit (g x)) \<Longrightarrow> forEach f xs = (Inr (), map g xs)"
  by (induction xs) (simp_all add: ret_def emit_def seq_def bind_def)

lemma validateOpenZeppelinContracts_throws:
  assumes "validateContracts w = Inr validatedContracts"
    and "\<exists>c\<in>set validatedContracts. \<not> isExistedOnDisk c \<or> \<not> isHashValid c"
  shows "throws (validateOpenZeppelinContracts w) \<and> quiet (validateOpenZeppelinContracts w)"
proof -
  let ?g = "\<lambda>c. OutputLine
              (if isExistedOnDisk c
               then if isHashValid c then validHashMessage (contractPath c)
                    else invalidHashMessage (contractPath c)
               else contractNotExistedOnDisk (contractPath c))"
  let ?f = "\<lambda>ozContract.
              if isExistedOnDisk ozContract then
                emit (OutputLine (if isHashValid ozContract
                                  then validHashMessage (contractPath ozContract)
                                  else invalidHashMessage (contractPath ozContract)))
              else
                emit (OutputLine (contractNotExistedOnDisk (contractPath ozContract)))"
  have fe: "forEach ?f validatedContracts = (Inr (), map ?g validatedContracts)"
    by (rule forEach_emit) simp
  from assms(2) have ne: "filter (\<lambda>c. \<not> isExistedOnDisk c \<or> \<not> isHashValid c) validatedContracts \<noteq> []"
    by (simp add: filter_empty_conv)
  have out: "list_all (\<lambda>ev. \<not> strategy_event ev) (map ?g validatedContracts)"
    by (simp add: list_all_iff)
  show ?thesis
    unfolding validateOpenZeppelinContracts_def Let_def throws_def quiet_def
    using ne out by (simp add: fst_bind snd_bind fst_seq snd_seq io_simps assms(1) fe)
qed

lemma run_cmd_not_quiet: "\<not> quiet (run_cmd w c)"
proof (cases c)
  case (CreateNewDeploymentService p)
  then show ?thesis by (simp add: quiet_def createNewDeploymentService_def snd_seq io_simps)
next
  case (DeployToLocalGanache n p u)
  then show ?thesis by (simp add: quiet_def deployToLocalGanache_def Let_def snd_seq io_simps)
next
  case (DeployToMainNetwork n p)
  then show ?thesis by (simp add: quiet_def deployToMainNetwork_def snd_seq io_simps)
next
  case (DeployToNetwork n p)
  then show ?thesis by (simp add: quiet_def deployToNetwork_def snd_seq io_simps)
next
  case (CreateLocalGanacheNetwork n p)
  then show ?thesis by (simp add: quiet_def createLocalGanacheNetwork_def snd_seq io_simps)
next
  case (CreateNetwork n p)
  then show ?thesis by (simp add: quiet_def createNetwork_def snd_bind io_simps)
qed

text \<open>
  C9. When some validated OpenZeppelin contract is missing on disk or has an invalid hash,
  \<open>deployContracts\<close> throws and its run holds no event of a deployment strategy, while
  every strategy, once called, causes such an event: no strategy was called.
\<close>

theorem deployContracts_invalid_openZeppelin:
  assumes "validateContracts w = Inr validatedContracts"
    and "\<exists>c\<in>set validatedContracts. \<not> isExistedOnDisk c \<or> \<not> isHashValid c"
  shows "throws (deployContracts w) \<and> quiet (deployContracts w) \<and>
         (\<forall>c. \<not> quiet (run_cmd w c))"
proof -
  have q1: "quiet (emit (SendEvent ''TruffleCommands.deployContracts.commandStarted'' []))"
    by (simp add: quiet_def io_simps)
  have q2: "quiet (lift r)" for r :: "error + string"
    by (simp add: quiet_def io_simps)
  have q3: "quiet (showQuickPick w items)" for items
    by (simp add: quiet_def showQuickPick_def io_simps)
  have q4: "quiet (emit (SendEvent ''TruffleCommands.deployContracts.selectedDestination'' ps))" for ps
    by (simp add: quiet_def io_simps)
  have q5: "quiet (bind (ask CheckAppsSilent (checkAppsSilent w)) (\<lambda>installed.
            if \<not> installed then
              seq (emit (SendEvent ''TruffleCommands.deployContracts.installTruffle'' []))
                (call w InstallTruffle)
            else ret ()))"
    by (simp add: quiet_def snd_bind snd_seq io_simps split: sum.splits)
  have q6: "quiet (bind (ask IsHdWalletProviderRequired (isHdWalletProviderRequired w)) (\<lambda>required.
            if required then
              bind (ask CheckHdWalletProviderVersion (checkHdWalletProviderVersion w)) (\<lambda>version_ok.
                if \<not> version_ok then
                  seq (emit (SendEvent
                         ''TruffleCommands.deployContracts.installTruffleHdWalletProvider'' []))
                    (call w InstallTruffleHdWalletProvider)
                else ret ())
            else ret ()))"
    by (simp add: quiet_def snd_bind snd_seq io_simps split: sum.splits)
  have "throws (deployContracts w) \<and> quiet (deployContracts w)"
    unfolding deployContracts_def Let_def
    apply (rule throws_quiet_seq, rule q1)
    apply (rule throws_quiet_bind, rule q2)
    apply (rule throws_quiet_bind, rule quiet_selection, rule selection_getTruffleDeployDestinations)
    apply (rule throws_quiet_bind, rule quiet_selection, rule selection_getTreeDeployDestinations)
    apply (rule throws_quiet_bind, rule q3)
    apply (rule throws_quiet_seq, rule q4)
    apply (rule throws_quiet_seq, rule q5)
    apply (rule throws_quiet_seq, rule q6)
    apply (rule throws_quiet_first)
    apply (rule validateOpenZeppelinContracts_throws[OF assms])
    done
  then show ?thesis using run_cmd_not_quiet by blast
qed

section \<open>Runs of the example workspaces\<close>

lemma example_regexp:
  "localGanacheRegexp example_world = map atom_of ''127.0.0.1:8545''"
  "localGanacheRegexp duplicate_world = map atom_of ''127.0.0.1:8545''"
  by (simp_all add: localGanacheRegexp_def duplicate_world_def example_world_def toString_8545)

lemma example_urls:
  "network_url (options development) = ''127.0.0.1:8545''"
  "network_url (options test_network) = ''127.0.0.1:8545''"
  "network_url (options mainnet) = ''https://mainnet.example.org/rpc''"
  by (simp_all add: network_url_def development_def test_network_def mainnet_def toString_8545)

lemma example_matches:
  "String_match ''127.0.0.1:8545'' (map atom_of ''127.0.0.1:8545'')"
  "\<not> String_match ''https://mainnet.example.org/rpc'' (map atom_of ''127.0.0.1:8545'')"
  by simp_all

lemma example_getTruffleDeployDestinations:
  "getTruffleDeployDestinations example_world ''/ws/truffle-config.js'' =
     (Inr [\<lparr>cmd = DeployToLocalGanache ''development'' ''/ws/truffle-config.js'' ''127.0.0.1:8545'',
            cwd = Some ''/ws'',
            description = Some ''127.0.0.1:8545'',
            detail = Some ''From truffle-config.js'',
            label = ''development'',
            networkId = StringId ''*''\<rparr>,
           \<lparr>cmd = DeployToMainNetwork ''mainnet'' ''/ws/truffle-config.js'',
            cwd = Some ''/ws'',
            description = Some ''https://mainnet.example.org/rpc'',
            detail = Some ''From truffle-config.js'',
            label = ''mainnet'',
            networkId = NumberId 1\<rparr>],
      [SendEvent ''TruffleCommands.getTruffleDeployFunction.returnDeployToLocalGanache'' [],
       SendEvent ''TruffleCommands.getTruffleDeployFunction.returnDeployToMainNetwork'' []])"
proof -
  have n: "getNetworks example_world ''/ws/truffle-config.js'' = Inr [development, mainnet]"
    "dirname example_world ''/ws/truffle-config.js'' = ''/ws''"
    by (simp_all add: example_world_def)
  have f: "network_name development = ''development''" "network_name mainnet = ''mainnet''"
    "network_id (options development) = StringId ''*''" "network_id (options mainnet) = NumberId 1"
    by (simp_all add: development_def mainnet_def)
  show ?thesis
    unfolding getTruffleDeployDestinations_def Let_def
    by (simp add: n f example_urls example_regexp example_matches push_def
        bind_def seq_def lift_def ret_def emit_def)
qed

lemma example_getTreeDeployDestinations:
  "getTreeDeployDestinations example_world ''/ws/truffle-config.js'' =
     (Inr [\<lparr>cmd = CreateLocalGanacheNetwork localNode ''/ws/truffle-config.js'',
            cwd = None,
            description = Some ''http://127.0.0.1:8545'',
            detail = Some ''Tree Item'',
            label = ''localhost:8545'',
            networkId = StringId ''*''\<rparr>,
           \<lparr>cmd = CreateNetwork memberNode ''/ws/truffle-config.js'',
            cwd = None,
            description = Some ''https://member1.example.org:3200'',
            detail = Some ''Tree Item'',
            label = ''member1'',
            networkId = NumberId 1337\<rparr>],
      [SendEvent ''TruffleCommands.getServiceCreateFunction.returnCreateLocalGanacheNetwork'' [],
       SendEvent ''TruffleCommands.getServiceCreateFunction.returnCreateService'' []])"
proof -
  have n: "getItems example_world =
      [Service ''Local Service'' [Project ''local'' [NetworkNodeItem localNode]],
       Service ''Azure Blockchain Service''
         [Project ''consortium'' [Member ''member1'', NetworkNodeItem memberNode]]]"
    "defaultLocalhostPort example_world = 8545"
    "getRPCAddress example_world (LocalNetworkNode l i p) = Inr ''http://127.0.0.1:8545''"
    "getRPCAddress example_world (AzureBlockchainNetworkNode l i) =
       Inr ''https://member1.example.org:3200''" for l i p
    by (simp_all add: example_world_def)
  show ?thesis
    unfolding getTreeDeployDestinations_def Let_def
    by (simp add: n push_def localNode_def memberNode_def
        bind_def seq_def lift_def ret_def emit_def)
qed

theorem deployContracts_candidates_witness:
  "hd (offered (snd (deployContracts example_world))) =
     [\<lparr>cmd = CreateNewDeploymentService ''/ws/truffle-config.js'',
       cwd = None,
       description = None,
       detail = None,
       label = ''Create a new network'',
       networkId = StringId ''*''\<rparr>,
      \<lparr>cmd = DeployToLocalGanache ''development'' ''/ws/truffle-config.js'' ''127.0.0.1:8545'',
       cwd = Some ''/ws'',
       description = Some ''127.0.0.1:8545'',
       detail = Some ''From truffle-config.js'',
       label = ''development'',
       networkId = StringId ''*''\<rparr>,
      \<lparr>cmd = DeployToMainNetwork ''mainnet'' ''/ws/truffle-config.js'',
       cwd = Some ''/ws'',
       description = Some ''https://mainnet.example.org/rpc'',
       detail = Some ''From truffle-config.js'',
       label = ''mainnet'',
       networkId = NumberId 1\<rparr>,
      \<lparr>cmd = CreateLocalGanacheNetwork localNode ''/ws/truffle-config.js'',
       cwd = None,
       description = Some ''http://127.0.0.1:8545'',
       detail = Some ''Tree Item'',
       label = ''localhost:8545'',
       networkId = StringId ''*''\<rparr>,
      \<lparr>cmd = CreateNetwork memberNode ''/ws/truffle-config.js'',
       cwd = None,
       description = Some ''https://member1.example.org:3200'',
       detail = Some ''Tree Item'',
       label = ''member1'',
       networkId = NumberId 1337\<rparr>]"
proof -
  have h1: "getTruffleConfigUri example_world = Inr ''/ws/truffle-config.js''"
    by (simp add: example_world_def)
  have d: "getDefaultDeployDestinations example_world ''/ws/truffle-config.js'' =
     [\<lparr>cmd = CreateNewDeploymentService ''/ws/truffle-config.js'',
       cwd = None,
       description = None,
       detail = None,
       label = ''Create a new network'',
       networkId = StringId ''*''\<rparr>]"
    by (simp add: getDefaultDeployDestinations_def example_world_def)
  show ?thesis
    using deployContracts_candidates[OF h1
        example_getTruffleDeployDestinations[THEN arg_cong[of _ _ fst], simplified fst_conv]
        example_getTreeDeployDestinations[THEN arg_cong[of _ _ fst], simplified fst_conv]]
    unfolding d by auto
qed

theorem deployContracts_invalid_openZeppelin_witness:
  "throws (deployContracts example_world) \<and> quiet (deployContracts example_world)"
proof -
  have h1: "validateContracts example_world =
      Inr [\<lparr>contractPath = ''contracts/ERC20.sol'', isExistedOnDisk = True, isHashValid = False\<rparr>]"
    by (simp add: example_world_def)
  have h2: "\<exists>c\<in>set [\<lparr>contractPath = ''contracts/ERC20.sol'', isExistedOnDisk = True,
                        isHashValid = False\<rparr>]. \<not> isExistedOnDisk c \<or> \<not> isHashValid c"
    by simp
  show ?thesis
    using deployContracts_invalid_openZeppelin[OF h1 h2] by simp
qed

lemma duplicate_getTruffleDeployDestinations:
  "getTruffleDeployDestinations duplicate_world ''/ws/truffle-config.js'' =
     (Inr [\<lparr>cmd = DeployToLocalGanache ''development'' ''/ws/truffle-config.js'' ''127.0.0.1:8545'',
            cwd = Some ''/ws'',
            description = Some ''127.0.0.1:8545'',
            detail = Some ''From truffle-config.js'',
            label = ''development'',
            networkId = StringId ''*''\<rparr>,
           \<lparr>cmd = DeployToLocalGanache ''test'' ''/ws/truffle-config.js'' ''127.0.0.1:8545'',
            cwd = Some ''/ws'',
            description = Some ''127.0.0.1:8545'',
            detail = Some ''From truffle-config.js'',
            label = ''test'',
            networkId = StringId ''*''\<rparr>],
      [SendEvent ''TruffleCommands.getTruffleDeployFunction.returnDeployToLocalGanache'' [],
       SendEvent ''TruffleCommands.getTruffleDeployFunction.returnDeployToLocalGanache'' []])"
proof -
  have n: "getNetworks duplicate_world ''/ws/truffle-config.js'' = Inr [development, test_network]"
    "dirname duplicate_world ''/ws/truffle-config.js'' = ''/ws''"
    by (simp_all add: duplicate_world_def example_world_def)
  have f: "network_name development = ''development''" "network_name test_network = ''test''"
    "network_id (options development) = StringId ''*''"
    "network_id (options test_network) = StringId ''*''"
    by (simp_all add: development_def test_network_def)
  show ?thesis
    unfolding getTruffleDeployDestinations_def Let_def
    by (simp add: n f example_urls example_regexp example_matches push_def
        bind_def seq_def lift_def ret_def emit_def)
qed

lemma duplicate_getTreeDeployDestinations:
  "getTreeDeployDestinations duplicate_world ''/ws/truffle-config.js'' = (Inr [], [])"
proof -
  have "getItems duplicate_world = []"
    by (simp add: duplicate_world_def)
  then show ?thesis
    unfolding getTreeDeployDestinations_def Let_def by (simp add: ret_def)
qed

text \<open>
  C1. The list offered by \<open>deployContracts\<close> is not deduplicated: the filter that builds
  \<open>uniqueDestinations\<close> keeps every element. In a workspace whose truffle configuration
  names the endpoint \<open>127.0.0.1:8545\<close> under two network names, the quick pick shows
  two destinations with that URL, and the run goes on to deploy.
\<close>

theorem deployContracts_offers_one_url_twice:
  "map (map description) (offered (snd (deployContracts duplicate_world))) =
     [[None, Some ''127.0.0.1:8545'', Some ''127.0.0.1:8545'']] \<and>
   fst (deployContracts duplicate_world) = Inr ()"
proof -
  have w: "getTruffleConfigUri duplicate_world = Inr ''/ws/truffle-config.js''"
    "pickedDestination duplicate_world items = Inr 1"
    "obfuscate duplicate_world s = s"
    "checkAppsSilent duplicate_world = Inr True"
    "isHdWalletProviderRequired duplicate_world = Inr False"
    "validateContracts duplicate_world = Inr []"
    "fails duplicate_world ev = None"
    "getPortFromUrl duplicate_world u = Some 8545"
    "dirname duplicate_world p = ''/ws''"
    "truffle duplicate_world = ''truffle''"
    for items s ev u p
    by (simp_all add: duplicate_world_def example_world_def)
  have d: "getDefaultDeployDestinations duplicate_world ''/ws/truffle-config.js'' =
     [\<lparr>cmd = CreateNewDeploymentService ''/ws/truffle-config.js'',
       cwd = None,
       description = None,
       detail = None,
       label = ''Create a new network'',
       networkId = StringId ''*''\<rparr>]"
    by (simp add: getDefaultDeployDestinations_def duplicate_world_def example_world_def)
  have v: "validateOpenZeppelinContracts duplicate_world = (Inr (), [ValidateContracts])"
    by (simp add: validateOpenZeppelinContracts_def w bind_def seq_def ask_def ret_def)
  have r: "deployToLocalGanache duplicate_world
             ''development'' ''/ws/truffle-config.js'' ''127.0.0.1:8545'' =
           (Inr (), [StartGanacheServer (Some 8545),
                     WithProgress (deployingContracts ''development''),
                     EnsureDir ''/ws'',
                     ExecuteCommand ''/ws'' ''npx''
                       [''truffle'', ''migrate'', ''--reset'', ''--network'', ''development''],
                     UpdateContracts])"
    by (simp add: deployToLocalGanache_def deployToNetwork_def w Let_def
        bind_def seq_def call_def emit_def)
  have p: "showQuickPick duplicate_world [a, b, c] = (Inr b, [ShowQuickPick [a, b, c]])" for a b c
    by (simp add: showQuickPick_def ask_def w)
  have c1: "bind (ask CheckAppsSilent (checkAppsSilent duplicate_world)) (\<lambda>installed.
            if \<not> installed then
              seq (emit (SendEvent ''TruffleCommands.deployContracts.installTruffle'' []))
                (call duplicate_world InstallTruffle)
            else ret ()) = (Inr (), [CheckAppsSilent])"
    by (simp add: w bind_def ask_def ret_def)
  have c2: "bind (ask IsHdWalletProviderRequired (isHdWalletProviderRequired duplicate_world)) (\<lambda>required.
            if required then
              bind (ask CheckHdWalletProviderVersion (checkHdWalletProviderVersion duplicate_world)) (\<lambda>version_ok.
                if \<not> version_ok then
                  seq (emit (SendEvent
                         ''TruffleCommands.deployContracts.installTruffleHdWalletProvider'' []))
                    (call duplicate_world InstallTruffleHdWalletProvider)
                else ret ())
            else ret ()) = (Inr (), [IsHdWalletProviderRequired])"
    by (simp add: w bind_def ask_def ret_def)
  have run: "snd (deployContracts duplicate_world) =
     [SendEvent ''TruffleCommands.deployContracts.commandStarted'' [],
      SendEvent ''TruffleCommands.getTruffleDeployFunction.returnDeployToLocalGanache'' [],
      SendEvent ''TruffleCommands.getTruffleDeployFunction.returnDeployToLocalGanache'' [],
      ShowQuickPick
        [\<lparr>cmd = CreateNewDeploymentService ''/ws/truffle-config.js'',
          cwd = None, description = None, detail = None,
          label = ''Create a new network'', networkId = StringId ''*''\<rparr>,
         \<lparr>cmd = DeployToLocalGanache ''development'' ''/ws/truffle-config.js'' ''127.0.0.1:8545'',
          cwd = Some ''/ws'', description = Some ''127.0.0.1:8545'',
          detail = Some ''From truffle-config.js'',
          label = ''development'', networkId = StringId ''*''\<rparr>,
         \<lparr>cmd = DeployToLocalGanache ''test'' ''/ws/truffle-config.js'' ''127.0.0.1:8545'',
          cwd = Some ''/ws'', description = Some ''127.0.0.1:8545'',
          detail = Some ''From truffle-config.js'',
          label = ''test'', networkId = StringId ''*''\<rparr>],
      SendEvent ''TruffleCommands.deployContracts.selectedDestination''
        [(''url'', ''127.0.0.1:8545'')],
      CheckAppsSilent,
      IsHdWalletProviderRequired,
      ValidateContracts,
      StartGanacheServer (Some 8545),
      WithProgress (deployingContracts ''development''),
      EnsureDir ''/ws'',
      ExecuteCommand ''/ws'' ''npx''
        [''truffle'', ''migrate'', ''--reset'', ''--network'', ''development''],
      UpdateContracts,
      SendEvent ''TruffleCommands.deployContracts.commandFinished'' []]"
    unfolding deployContracts_def Let_def c1 c2
    by (simp add: io p r w d v duplicate_getTruffleDeployDestinations
        duplicate_getTreeDeployDestinations uniqueDestinations_append description_or_empty_def)
  have res: "fst (deployContracts duplicate_world) = Inr ()"
    unfolding deployContracts_def Let_def c1 c2
    by (simp add: io p r w d v duplicate_getTruffleDeployDestinations
        duplicate_getTreeDeployDestinations uniqueDestinations_append description_or_empty_def)
  show ?thesis
    unfolding run res by simp
qed

section \<open>The private key of a mnemonic\<close>

lemma snd_forEach_push_silent:
  "(\<And>x. snd (f x) = []) \<Longrightarrow> snd (forEach_push f xs acc) = []"
  by (induction xs arbitrary: acc) (simp_all add: snd_bind io_simps split: sum.splits)

lemma snd_mnemonicItems: "snd (mnemonicItems w) = []"
  unfolding mnemonicItems_def
  by (simp add: snd_bind io_simps snd_forEach_push_silent split: sum.splits)

lemma clipboard_append: "clipboard (xs @ ys) = clipboard xs @ clipboard ys"
  by (induction xs rule: clipboard.induct) simp_all

text \<open>
  C8. For a selected mnemonic with non-empty text: when the library calls return, the
  clipboard receives exactly the private key the libraries give for the mnemonic (seed,
  master key, child at \<open>m/44'/60'/0'/0/0\<close>, hex text); when one of them throws, the
  invalid-mnemonic error is shown and nothing is written to the clipboard.
\<close>

theorem getPrivateKeyFromMnemonic_derives:
  assumes "fst (mnemonicItems w) = Inr items"
    and "fst (showMnemonicQuickPick w items) = Inr mnemonicItem"
    and "extended mnemonicItem \<noteq> []"
  shows "case privateKey_of_mnemonic lib (extended mnemonicItem) of
           Inr privateKey \<Rightarrow>
             clipboard (snd (getPrivateKeyFromMnemonic lib w)) = [privateKey]
         | Inl e \<Rightarrow>
             clipboard (snd (getPrivateKeyFromMnemonic lib w)) = [] \<and>
             ShowErrorMessage InvalidMnemonic \<in> set (snd (getPrivateKeyFromMnemonic lib w))"
proof -
  from assms(2) have ne: "length items \<noteq> 0"
    by (auto simp: showMnemonicQuickPick_def io_simps split: sum.splits if_splits)
  let ?body = "try_catch
                 (bind (lift (mnemonicToSeed lib (extended mnemonicItem))) (\<lambda>buffer.
                  bind (lift (fromMasterSeed lib buffer)) (\<lambda>key.
                  bind (lift (derive lib key ''m/44'/60'/0'/0/0'')) (\<lambda>childKey.
                  bind (lift (privateKey_toString lib childKey)) (\<lambda>privateKey.
                  seq (call w (WriteToClipboard privateKey))
                    (emit (ShowInformationMessage privateKeyWasCopiedToClipboard)))))))
                 (\<lambda>error.
                    seq (emit (SendException error))
                      (emit (ShowErrorMessage InvalidMnemonic)))"
  have tr: "snd (getPrivateKeyFromMnemonic lib w) =
          SendEvent ''TruffleCommands.getPrivateKeyFromMnemonic.commandStarted'' [] #
          ShowMnemonicQuickPick items # snd ?body @
          (case fst ?body of Inl e \<Rightarrow> []
           | Inr u \<Rightarrow> [SendEvent ''TruffleCommands.getPrivateKeyFromMnemonic.commandFinished'' []])"
  proof -
    have s: "snd (showMnemonicQuickPick w items) = [ShowMnemonicQuickPick items]"
      by (simp add: showMnemonicQuickPick_def io_simps)
    show ?thesis
      unfolding getPrivateKeyFromMnemonic_def Let_def
      using ne assms(3)
      by (simp add: fst_bind snd_bind snd_seq io_simps assms(1,2) snd_mnemonicItems s
          cong: sum.case_cong)
  qed
  have body: "case privateKey_of_mnemonic lib (extended mnemonicItem) of
           Inr privateKey \<Rightarrow> clipboard (snd ?body) = [privateKey]
         | Inl e \<Rightarrow> clipboard (snd ?body) = [] \<and> ShowErrorMessage InvalidMnemonic \<in> set (snd ?body)"
    by (simp add: privateKey_of_mnemonic_def try_catch_def bind_def seq_def lift_def call_def
        emit_def split: sum.splits option.splits)
  have fin: "clipboard (case fst ?body of Inl e \<Rightarrow> []
           | Inr u \<Rightarrow> [SendEvent ''TruffleCommands.getPrivateKeyFromMnemonic.commandFinished'' []]) = []"
    by (simp split: sum.splits)
  show ?thesis
    using body unfolding tr
    by (simp add: clipboard_append fin split: sum.splits)
qed

theorem getPrivateKeyFromMnemonic_derives_witness:
  "clipboard (snd (getPrivateKeyFromMnemonic example_libraries example_world)) =
     [''abandon ability ablem/44'/60'/0'/0/0'']"
proof -
  have h1: "fst (mnemonicItems example_world) =
      Inr [\<lparr>item_detail = ''/ws/mnemonic.env'', extended = ''abandon ability able'',
            item_label = ''aba ... ''\<rparr>]"
    by (simp add: mnemonicItems_def example_world_def push_def bind_def lift_def ret_def)
  have h2: "fst (showMnemonicQuickPick example_world
                  [\<lparr>item_detail = ''/ws/mnemonic.env'', extended = ''abandon ability able'',
                    item_label = ''aba ... ''\<rparr>]) =
      Inr \<lparr>item_detail = ''/ws/mnemonic.env'', extended = ''abandon ability able'',
            item_label = ''aba ... ''\<rparr>"
    by (simp add: showMnemonicQuickPick_def example_world_def ask_def)
  have h3: "extended \<lparr>item_detail = ''/ws/mnemonic.env'', extended = ''abandon ability able'',
            item_label = ''aba ... ''\<rparr> \<noteq> []"
    by simp
  have k: "privateKey_of_mnemonic example_libraries ''abandon ability able'' =
             Inr ''abandon ability ablem/44'/60'/0'/0/0''"
    by (simp add: privateKey_of_mnemonic_def example_libraries_def)
  show ?thesis
    using getPrivateKeyFromMnemonic_derives[OF h1 h2 h3, of example_libraries]
    by (simp add: k)
qed

end
